theory Spec2Isabelle
  imports Main "HOL-Library.Word"
begin

section \<open>JavaScript strings\<close>

text \<open>
  The service works on JavaScript strings.  A string is modelled as a \<^typ>\<open>string\<close> whose
  characters are the code units below 256 (the Latin-1 range of UTF-16); \<open>length\<close> is the
  JavaScript \<^verbatim>\<open>length\<close>.  The functions below are the built-ins the service calls, written
  out for that range.  Cache keys are treated a second time further down, for strings of
  arbitrary 16-bit code units.
\<close>

definition is_space :: "char \<Rightarrow> bool" where
  \<comment> \<open>the white space and line terminators that \<^verbatim>\<open>String.prototype.trim\<close> removes\<close>
  "is_space c \<longleftrightarrow>
     c \<in> set [CHR 0x09, CHR 0x0A, CHR 0x0B, CHR 0x0C, CHR 0x0D, CHR 0x20, CHR 0xA0]"

definition trim :: "string \<Rightarrow> string" where
  "trim s = rev (dropWhile is_space (rev (dropWhile is_space s)))"

definition is_upper :: "char \<Rightarrow> bool" where
  \<comment> \<open>the code units that \<^verbatim>\<open>toLowerCase\<close> changes: A to Z, and U+00C0 to U+00DE but U+00D7\<close>
  "is_upper c \<longleftrightarrow>
     (let n = (of_char c :: nat)
      in (65 \<le> n \<and> n \<le> 90) \<or> (192 \<le> n \<and> n \<le> 222 \<and> n \<noteq> 215))"

fun set_bit5 :: "char \<Rightarrow> char" where
  \<comment> \<open>adds 32 to an upper-case code unit\<close>
  "set_bit5 (Char b0 b1 b2 b3 b4 b5 b6 b7) = Char b0 b1 b2 b3 b4 True b6 b7"

definition lower_char :: "char \<Rightarrow> char" where
  "lower_char c = (if is_upper c then set_bit5 c else c)"

definition toLowerCase :: "string \<Rightarrow> string" where
  "toLowerCase s = map lower_char s"

fun startsWith :: "string \<Rightarrow> string \<Rightarrow> bool" where
  "startsWith s [] = True"
| "startsWith [] (p # ps) = False"
| "startsWith (c # s) (p # ps) = (c = p \<and> startsWith s ps)"

fun str_includes :: "string \<Rightarrow> string \<Rightarrow> bool" where
  \<comment> \<open>\<^verbatim>\<open>s.includes(p)\<close>\<close>
  "str_includes [] p = (p = [])"
| "str_includes (c # s) p = (startsWith (c # s) p \<or> str_includes s p)"

definition indexOf :: "string \<Rightarrow> char \<Rightarrow> int" where
  \<comment> \<open>\<^verbatim>\<open>s.indexOf(c)\<close>: the first position of \<open>c\<close>, or -1\<close>
  "indexOf s c =
     (if c \<in> set s then int (length (takeWhile (\<lambda>x. x \<noteq> c) s)) else - 1)"

definition lastIndexOf :: "string \<Rightarrow> char \<Rightarrow> int" where
  \<comment> \<open>\<^verbatim>\<open>s.lastIndexOf(c)\<close>: the last position of \<open>c\<close>, or -1\<close>
  "lastIndexOf s c =
     (if c \<in> set s
      then int (length s) - 1 - int (length (takeWhile (\<lambda>x. x \<noteq> c) (rev s)))
      else - 1)"

definition substring :: "string \<Rightarrow> int \<Rightarrow> int \<Rightarrow> string" where
  \<comment> \<open>\<^verbatim>\<open>s.substring(a, b)\<close>: both indices are clamped to the string, and swapped when
      the first is the larger one\<close>
  "substring s a b =
     (let n = int (length s);
          a' = max 0 (min a n);
          b' = max 0 (min b n);
          lo = min a' b';
          hi = max a' b'
      in take (nat (hi - lo)) (drop (nat lo) s))"

fun remove_all :: "string \<Rightarrow> string \<Rightarrow> string" where
  \<comment> \<open>\<^verbatim>\<open>s.replace(/p/g, '')\<close> for a literal, non-empty pattern \<open>p\<close>: the matches are
      removed from left to right, without overlap\<close>
  "remove_all p [] = []"
| "remove_all p (c # s) =
     (if p \<noteq> [] \<and> startsWith (c # s) p
      then remove_all p (drop (length p) (c # s))
      else c # remove_all p s)"

definition is_line_terminator :: "char \<Rightarrow> bool" where
  \<comment> \<open>what \<^verbatim>\<open>.\<close> of a regular expression does not match\<close>
  "is_line_terminator c \<longleftrightarrow> c = CHR 0x0A \<or> c = CHR 0x0D"

fun json_match :: "string \<Rightarrow> string option" where
  \<comment> \<open>\<^verbatim>\<open>s.match(/\{.*\}/)\<close>, the matched text: from the leftmost \<^verbatim>\<open>{\<close> that has a
      \<^verbatim>\<open>}\<close> later on its line, to the last \<^verbatim>\<open>}\<close> of that line\<close>
  "json_match [] = None"
| "json_match (c # s) =
     (let line = takeWhile (\<lambda>x. \<not> is_line_terminator x) s
      in if c = CHR ''{'' \<and> CHR ''}'' \<in> set line
         then Some (c # rev (dropWhile (\<lambda>x. x \<noteq> CHR ''}'') (rev line)))
         else json_match s)"

subsection \<open>Cache keys\<close>

definition getCacheKey :: "string \<Rightarrow> string" where
  "getCacheKey query = toLowerCase (trim query)"

subsection \<open>Cache keys of arbitrary strings\<close>






section \<open>JSON values\<close>

text \<open>
  What \<^verbatim>\<open>JSON.parse\<close> returns.  Numbers are the integers (the status codes the service
  compares with; fractions play no part); an object is the list of its properties, the
  binding in force first.
  A value of type \<open>json option\<close> is a JavaScript value that may be \<^verbatim>\<open>undefined\<close> (\<open>None\<close>).
\<close>

datatype json = JNull | JBool bool | JNum int | JStr string | JArr "json list"
  | JObj "(string \<times> json) list"

text \<open>
  \<^verbatim>\<open>JSON.parse\<close> belongs to the engine, not to the service: it is the parameter \<open>parse\<close> of
  every function that calls it.  \<open>Inr v\<close> is the parsed value, \<open>Inl m\<close> a \<^verbatim>\<open>SyntaxError\<close>
  with message \<open>m\<close>.
\<close>

type_synonym parser = "string \<Rightarrow> string + json"

fun truthy :: "json option \<Rightarrow> bool" where
  "truthy None = False"
| "truthy (Some JNull) = False"
| "truthy (Some (JBool b)) = b"
| "truthy (Some (JNum n)) = (n \<noteq> 0)"
| "truthy (Some (JStr s)) = (s \<noteq> [])"
| "truthy (Some (JArr xs)) = True"
| "truthy (Some (JObj kvs)) = True"

fun get_prop :: "json \<Rightarrow> string \<Rightarrow> json option" where
  \<comment> \<open>\<^verbatim>\<open>v.k\<close> for the keys the service reads (none is a built-in property of a string,
      number, boolean or array); on \<^verbatim>\<open>null\<close> the read raises, which every caller below
      treats on its own\<close>
  "get_prop (JObj kvs) k = map_of kvs k"
| "get_prop v k = None"

definition js_or :: "json option \<Rightarrow> json option \<Rightarrow> json option" where
  \<comment> \<open>\<^verbatim>\<open>a || b\<close>\<close>
  "js_or a b = (if truthy a then a else b)"

section \<open>Thrown values\<close>

text \<open>
  What an operation throws and what the service throws: an object with the properties the
  service reads.  \<open>None\<close> is an absent property (\<^verbatim>\<open>undefined\<close>).  \<open>status\<close>, \<open>code\<close>,
  \<open>title\<close>, \<open>details\<close> and \<open>isRetryable\<close> are any value; \<open>message\<close> is a string when
  present, as for every \<^verbatim>\<open>Error\<close> and every \<^verbatim>\<open>AnalysisError\<close>.  \<open>is_syntax_error\<close> is
  \<^verbatim>\<open>error instanceof SyntaxError\<close>.  \<open>name\<close> is the \<^verbatim>\<open>name\<close> of an \<^verbatim>\<open>Error\<close> instance, and
  \<open>None\<close> for an object that is no \<^verbatim>\<open>Error\<close>.  An operation that rejects with a primitive
  value, with \<^verbatim>\<open>null\<close> or with \<^verbatim>\<open>undefined\<close>, or with an object whose message is present
  and no string, is outside the model.
\<close>

record js_error =
  status :: "json option"
  code :: "json option"
  message :: "string option"
  title :: "json option"
  details :: "json option"
  isRetryable :: "json option"
  is_syntax_error :: bool
  name :: "string option"

definition String :: "js_error \<Rightarrow> string" where
  \<comment> \<open>\<^verbatim>\<open>String(error)\<close>: \<^verbatim>\<open>Error.prototype.toString\<close> for an \<^verbatim>\<open>Error\<close> instance, which reads
      the name and the message the object has at that moment, and
      \<^verbatim>\<open>Object.prototype.toString\<close> for any other object\<close>
  "String error =
     (case name error of
        None \<Rightarrow> ''[object Object]''
      | Some n \<Rightarrow>
          (let msg = (case message error of None \<Rightarrow> [] | Some m \<Rightarrow> m)
           in if n = [] then msg else if msg = [] then n else n @ '': '' @ msg))"

definition new_Error :: "string \<Rightarrow> js_error" where
  "new_Error m =
     \<lparr>status = None, code = None, message = Some m, title = None, details = None,
      isRetryable = None, is_syntax_error = False, name = Some ''Error''\<rparr>"

definition new_SyntaxError :: "string \<Rightarrow> js_error" where
  "new_SyntaxError m =
     \<lparr>status = None, code = None, message = Some m, title = None, details = None,
      isRetryable = None, is_syntax_error = True, name = Some ''SyntaxError''\<rparr>"

definition new_TypeError :: "string \<Rightarrow> js_error" where
  "new_TypeError m =
     \<lparr>status = None, code = None, message = Some m, title = None, details = None,
      isRetryable = None, is_syntax_error = False, name = Some ''TypeError''\<rparr>"

definition AnalysisError :: "string \<Rightarrow> string \<Rightarrow> string option \<Rightarrow> bool \<Rightarrow> js_error" where
  \<comment> \<open>the object literal \<^verbatim>\<open>{ title, message, details, isRetryable }\<close>\<close>
  "AnalysisError t m d r =
     \<lparr>status = None, code = None, message = Some m, title = Some (JStr t),
      details = map_option JStr d, isRetryable = Some (JBool r), is_syntax_error = False,
      name = None\<rparr>"

definition is_ErrorDescriptor :: "js_error \<Rightarrow> bool" where
  \<comment> \<open>the shape of \<^verbatim>\<open>AnalysisError\<close> in \<^verbatim>\<open>types.ts\<close>: a string \<^verbatim>\<open>title\<close>, a string
      \<^verbatim>\<open>message\<close>, a boolean \<^verbatim>\<open>isRetryable\<close>, and \<^verbatim>\<open>details\<close> absent or a string\<close>
  "is_ErrorDescriptor e \<longleftrightarrow>
     (case title e of Some (JStr t) \<Rightarrow> True | _ \<Rightarrow> False) \<and>
     message e \<noteq> None \<and>
     (case details e of None \<Rightarrow> True | Some (JStr d) \<Rightarrow> True | _ \<Rightarrow> False) \<and>
     (case isRetryable e of Some (JBool r) \<Rightarrow> True | _ \<Rightarrow> False)"

section \<open>The retry executor\<close>

definition nested_error :: "parser \<Rightarrow> string option \<Rightarrow> json option" where
  \<comment> \<open>the value of \<^verbatim>\<open>parsed.error\<close> when the message holds a \<^verbatim>\<open>{...}\<close> that parses and
      the value is truthy; \<open>None\<close> when any step fails or raises\<close>
  "nested_error parse m =
     (case m of
        None \<Rightarrow> None
      | Some s \<Rightarrow>
          (case json_match s of
             None \<Rightarrow> None
           | Some j \<Rightarrow>
               (case parse j of
                  Inl _ \<Rightarrow> None
                | Inr parsed \<Rightarrow>
                    (if truthy (get_prop parsed ''error'') then get_prop parsed ''error'' else None))))"

definition retry_unwrap :: "parser \<Rightarrow> js_error \<Rightarrow> json option \<times> string \<times> js_error" where
  \<comment> \<open>lines 60 to 75 of \<^verbatim>\<open>retryOperation\<close>: the local \<^verbatim>\<open>status\<close> and \<^verbatim>\<open>msg\<close>, and the
      error object after the patch.  A nested message that is truthy and no string makes
      \<^verbatim>\<open>toLowerCase\<close> raise, which the inner \<^verbatim>\<open>catch\<close> swallows before the patch\<close>
  "retry_unwrap parse error =
     (let status0 = js_or (status error) (code error);
          msg0 = toLowerCase (case message error of None \<Rightarrow> [] | Some m \<Rightarrow> m)
      in case nested_error parse (message error) of
           None \<Rightarrow> (status0, msg0, error)
         | Some e \<Rightarrow>
             (let status1 = (if truthy (get_prop e ''code'') then get_prop e ''code'' else status0)
              in case get_prop e ''message'' of
                   Some (JStr s) \<Rightarrow>
                     (if s \<noteq> []
                      then (status1, toLowerCase s, error\<lparr>status := status1, message := Some s\<rparr>)
                      else (status1, msg0, error\<lparr>status := status1\<rparr>))
                 | m \<Rightarrow>
                     (if truthy m then (status1, msg0, error)
                      else (status1, msg0, error\<lparr>status := status1\<rparr>))))"

definition isQuota :: "json option \<Rightarrow> string \<Rightarrow> bool" where
  "isQuota st msg \<longleftrightarrow>
     st = Some (JNum 429) \<or> str_includes msg ''quota'' \<or>
     str_includes msg ''resource_exhausted'' \<or> str_includes msg ''429''"

definition isServer :: "json option \<Rightarrow> string \<Rightarrow> bool" where
  "isServer st msg \<longleftrightarrow>
     st = Some (JNum 503) \<or> st = Some (JNum 500) \<or> str_includes msg ''overloaded''"

definition baseDelay :: "bool \<Rightarrow> nat \<Rightarrow> nat" where
  "baseDelay quota initialDelay = (if quota then 5000 else initialDelay)"

text \<open>
  The operation is asynchronous and may answer differently each time it is invoked:
  \<open>operation i\<close> is what its invocation number \<open>i\<close> (from 0) settles to, \<open>Inl\<close> a rejection.
  The result records what \<^verbatim>\<open>retryOperation\<close> settles to (\<open>Inl None\<close> is \<^verbatim>\<open>throw undefined\<close>),
  how many times it invoked the operation, and the delays it waited, in milliseconds.
\<close>

record 'a retry_result =
  result :: "js_error option + 'a"
  calls :: nat
  waits :: "nat list"

function retry_loop ::
  "parser \<Rightarrow> (nat \<Rightarrow> js_error + 'a) \<Rightarrow> nat \<Rightarrow> nat \<Rightarrow> nat \<Rightarrow> js_error option \<Rightarrow> nat list
     \<Rightarrow> 'a retry_result" where
  "retry_loop parse operation maxRetries initialDelay i lastError ws =
     (if i < maxRetries then
        (case operation i of
           Inr v \<Rightarrow> \<lparr>result = Inr v, calls = Suc i, waits = ws\<rparr>
         | Inl error \<Rightarrow>
             (case retry_unwrap parse error of
                (st, msg, error') \<Rightarrow>
                  if (isQuota st msg \<or> isServer st msg) \<and> i < maxRetries - 1
                  then retry_loop parse operation maxRetries initialDelay (Suc i) (Some error')
                         (ws @ [baseDelay (isQuota st msg) initialDelay * 2 ^ i])
                  else \<lparr>result = Inl (Some error'), calls = Suc i, waits = ws\<rparr>))
      else \<lparr>result = Inl lastError, calls = i, waits = ws\<rparr>)"
  by pat_completeness auto
termination
  by (relation "measure (\<lambda>(parse, operation, maxRetries, initialDelay, i, lastError, ws).
        maxRetries - i)") auto

declare retry_loop.simps [simp del]

definition retryOperation ::
  "parser \<Rightarrow> (nat \<Rightarrow> js_error + 'a) \<Rightarrow> nat \<Rightarrow> nat \<Rightarrow> 'a retry_result" where
  "retryOperation parse operation maxRetries initialDelay =
     retry_loop parse operation maxRetries initialDelay 0 None []"

definition default_maxRetries :: nat where
  "default_maxRetries = 3"

definition default_initialDelay :: nat where
  "default_initialDelay = 2000"

section \<open>The error normalizer\<close>

definition normalizer_unwrap :: "parser \<Rightarrow> js_error \<Rightarrow> js_error option" where
  \<comment> \<open>lines 105 to 114 of \<^verbatim>\<open>handleApiError\<close>: the error object after the patch.  \<open>None\<close>:
      the message has been overwritten with a truthy value that is no string\<close>
  "normalizer_unwrap parse error =
     (case nested_error parse (message error) of
        None \<Rightarrow> Some error
      | Some e \<Rightarrow>
          (let error1 = (if truthy (get_prop e ''code'') then error\<lparr>status := get_prop e ''code''\<rparr>
                         else error)
           in case get_prop e ''message'' of
                Some (JStr s) \<Rightarrow> Some (if s \<noteq> [] then error1\<lparr>message := Some s\<rparr> else error1)
              | m \<Rightarrow> (if truthy m then None else Some error1)))"

definition payload_message_no_string :: "parser \<Rightarrow> js_error \<Rightarrow> bool" where
  \<comment> \<open>the message of \<open>error\<close> embeds a JSON error payload whose own \<^verbatim>\<open>message\<close> is truthy
      and no string: line 111 then stores a message on which line 124 raises\<close>
  "payload_message_no_string parse error \<longleftrightarrow>
     (case nested_error parse (message error) of
        None \<Rightarrow> False
      | Some e \<Rightarrow>
          (case get_prop e ''message'' of
             Some (JStr s) \<Rightarrow> False
           | m \<Rightarrow> truthy m))"

definition normalizer_TypeError :: js_error where
  \<comment> \<open>what \<^verbatim>\<open>toLowerCase\<close> on line 124 raises after a patch that leaves a message that is
      no string; the message of the \<^verbatim>\<open>TypeError\<close> is the engine's\<close>
  \<open>normalizer_TypeError =
     new_TypeError ''(error.message || "").toLowerCase is not a function''\<close>

definition passes_through :: "js_error \<Rightarrow> bool" where
  \<comment> \<open>line 127: \<^verbatim>\<open>error.title && error.message && error.isRetryable !== undefined\<close>\<close>
  "passes_through error \<longleftrightarrow>
     truthy (title error) \<and>
     (case message error of None \<Rightarrow> False | Some m \<Rightarrow> m \<noteq> []) \<and>
     isRetryable error \<noteq> None"

definition classify :: "json option \<Rightarrow> string \<Rightarrow> bool \<Rightarrow> string \<Rightarrow> js_error" where
  \<comment> \<open>lines 116 to 121 and 131 to 169: the descriptor for the status \<open>st\<close>, the lower-cased
      message \<open>msg\<close>, \<open>syntax\<close> for \<^verbatim>\<open>error instanceof SyntaxError\<close>, and the details \<open>d\<close>\<close>
  "classify st msg syntax d =
     (if str_includes msg ''failed to fetch'' \<or> str_includes msg ''networkerror'' \<or>
         str_includes msg ''network''
      then AnalysisError ''Network Connection Error''
             ''Unable to connect to the server. Please check your internet connection or try again later.''
             (Some d) True
      else if st = Some (JNum 400) \<or> str_includes msg ''400'' \<or>
              str_includes msg ''invalid argument''
      then AnalysisError ''Invalid Request''
             ''The request was rejected. This might be due to an invalid ticker symbol or safety filters triggering.''
             (Some d) False
      else if st = Some (JNum 401) \<or> str_includes msg ''401'' \<or> str_includes msg ''api key''
      then AnalysisError ''Authentication Error''
             ''Invalid API Key. Please ensure your API_KEY is correctly set in the environment.''
             (Some d) False
      else if st = Some (JNum 403) \<or> str_includes msg ''403''
      then AnalysisError ''Permission Denied''
             ''Your API key does not have access to the required model or region.''
             (Some d) False
      else if st = Some (JNum 404) \<or> str_includes msg ''404''
      then AnalysisError ''Resource Not Found''
             ''The requested AI model version might be deprecated or unavailable.''
             (Some d) False
      else if st = Some (JNum 429) \<or> str_includes msg ''429'' \<or> str_includes msg ''quota'' \<or>
              str_includes msg ''resource_exhausted''
      then AnalysisError ''Rate Limit Exceeded''
             ''You have hit the API quota limit. Please wait a minute before trying again, or check your billing details.''
             (Some d) True
      else if st = Some (JNum 500) \<or> str_includes msg ''500''
      then AnalysisError ''Server Error''
             (''Google'' @ [CHR 0x27] @
              ''s AI servers encountered an internal error. Please try again later.'')
             (Some d) True
      else if st = Some (JNum 503) \<or> str_includes msg ''503'' \<or> str_includes msg ''overloaded''
      then AnalysisError ''Service Overloaded''
             ''The Gemini API is currently experiencing high traffic. Please retry in a few moments.''
             (Some d) True
      else if syntax \<or> str_includes msg ''json'' \<or> str_includes msg ''parse''
      then AnalysisError ''Data Parsing Error''
             ''The AI response could not be processed correctly. This is usually a temporary glitch.''
             (Some d) True
      else AnalysisError ''Analysis Failed''
             ''An unexpected error occurred while generating the report.''
             (Some d) True)"

definition message_or_empty :: "js_error \<Rightarrow> string" where
  \<comment> \<open>\<^verbatim>\<open>error.message || ""\<close>\<close>
  "message_or_empty error = (case message error of None \<Rightarrow> [] | Some m \<Rightarrow> m)"

definition handleApiError :: "parser \<Rightarrow> js_error \<Rightarrow> js_error" where
  \<comment> \<open>the value \<^verbatim>\<open>handleApiError\<close> throws (it never returns)\<close>
  "handleApiError parse error0 =
     (case normalizer_unwrap parse error0 of
        None \<Rightarrow> normalizer_TypeError
      | Some error \<Rightarrow>
          (if passes_through error then error
           else classify (js_or (status error) (code error))
                  (toLowerCase (message_or_empty error))
                  (is_syntax_error error)
                  (if message_or_empty error \<noteq> [] then message_or_empty error
                   else String error)))"

definition catch_handleApiError :: "parser \<Rightarrow> js_error option \<Rightarrow> js_error" where
  \<comment> \<open>\<^verbatim>\<open>catch (error) { handleApiError(error); }\<close>; on \<^verbatim>\<open>undefined\<close> the read of
      \<^verbatim>\<open>error.message\<close> on line 119 raises\<close>
  "catch_handleApiError parse thrown =
     (case thrown of
        None \<Rightarrow> new_TypeError (''Cannot read properties of undefined (reading '' @ [CHR 0x27] @
                  ''message'' @ [CHR 0x27] @ '')'')
      | Some error \<Rightarrow> handleApiError parse error)"

section \<open>Module state\<close>

record env =
  apiKey :: string
  window_defined :: bool
  storage_throws :: bool

record cache_entry =
  data :: "json option"
  timestamp :: int

text \<open>
  The module-level variables, and the slots of \<^verbatim>\<open>localStorage\<close> (a slot holds what
  \<^verbatim>\<open>JSON.stringify({ data, timestamp })\<close> serializes).
\<close>

record state =
  marketCache :: "cache_entry option"
  screenerCache :: "string \<Rightarrow> cache_entry option"
  lastScreenerQuery :: "string option"
  ipoListCache :: "cache_entry option"
  localStorage :: "string \<Rightarrow> cache_entry option"

definition STORAGE_KEYS_MARKET :: string where
  "STORAGE_KEYS_MARKET = ''equity_insight_market_v1''"

definition STORAGE_KEYS_IPO_LIST :: string where
  "STORAGE_KEYS_IPO_LIST = ''equity_insight_ipo_list_v1''"

definition MARKET_CACHE_TTL :: int where
  "MARKET_CACHE_TTL = 5 * 60 * 1000"

definition SCREENER_CACHE_TTL :: int where
  "SCREENER_CACHE_TTL = 15 * 60 * 1000"

definition IPO_CACHE_TTL :: int where
  "IPO_CACHE_TTL = 60 * 60 * 1000"

definition loadCache :: "env \<Rightarrow> (string \<Rightarrow> cache_entry option) \<Rightarrow> string \<Rightarrow> cache_entry option" where
  "loadCache e slots key =
     (if window_defined e \<and> \<not> storage_throws e then slots key else None)"

definition saveCache :: "env \<Rightarrow> string \<Rightarrow> json option \<Rightarrow> int \<Rightarrow> state \<Rightarrow> state" where
  "saveCache e key d ts st =
     (if window_defined e \<and> \<not> storage_throws e
      then st\<lparr>localStorage := (localStorage st)(key \<mapsto> \<lparr>data = d, timestamp = ts\<rparr>)\<rparr>
      else st)"

definition initial_state :: "env \<Rightarrow> (string \<Rightarrow> cache_entry option) \<Rightarrow> state" where
  \<comment> \<open>the module after it is loaded\<close>
  "initial_state e slots =
     \<lparr>marketCache = loadCache e slots STORAGE_KEYS_MARKET,
      screenerCache = Map.empty,
      lastScreenerQuery = None,
      ipoListCache = loadCache e slots STORAGE_KEYS_IPO_LIST,
      localStorage = slots\<rparr>"

definition is_fresh :: "bool \<Rightarrow> cache_entry option \<Rightarrow> int \<Rightarrow> int \<Rightarrow> bool" where
  \<comment> \<open>\<^verbatim>\<open>!forceRefresh && cached && (now - cached.timestamp < TTL)\<close>\<close>
  "is_fresh forceRefresh cached now ttl \<longleftrightarrow>
     \<not> forceRefresh \<and> (case cached of None \<Rightarrow> False | Some c \<Rightarrow> now - timestamp c < ttl)"

section \<open>The report functions\<close>

text \<open>
  A call of an exported function gets the environment, \<^verbatim>\<open>JSON.parse\<close>, what the model
  invocations of this call settle to (the \<^verbatim>\<open>text\<close> of the response, \<open>None\<close> when it has
  none), its arguments, the readings of \<^verbatim>\<open>Date.now()\<close> in the order the call makes them,
  and the module state.  It gives what the call settles to (\<open>Inl\<close> a rejection), the
  number of model invocations, and the module state it leaves.
\<close>

record 'a outcome =
  returned :: "js_error + 'a"
  model_calls :: nat
  final :: state

record SearchParams =
  ticker :: string
  exchange :: string
  horizon :: string
  lookback :: int

definition missing_api_key :: js_error where
  "missing_api_key = AnalysisError ''Missing API Key'' ''API Key is not configured.'' None False"

definition clean :: "string \<Rightarrow> string" where
  \<comment> \<open>\<^verbatim>\<open>text.replace(/```json/g, '').replace(/```/g, '').trim()\<close>\<close>
  "clean t = trim (remove_all ''```'' (remove_all ''```json'' t))"

definition refusalPatterns :: "string list" where
  "refusalPatterns =
     [''cannot find'', ''unable to find'', ''no data available'',
      ''doesn'' @ [CHR 0x27] @ ''t exist'', ''don'' @ [CHR 0x27] @ ''t have information'',
      ''valid ticker'', ''not a valid'']"

definition is_refusal :: "string \<Rightarrow> bool" where
  \<comment> \<open>the condition of line 327, on the cleaned text\<close>
  "is_refusal t \<longleftrightarrow>
     length t < 500 \<and> list_ex (\<lambda>p. str_includes (toLowerCase t) p) refusalPatterns"

definition ticker_not_found :: "SearchParams \<Rightarrow> string \<Rightarrow> js_error" where
  "ticker_not_found params t =
     AnalysisError ''Ticker Not Found''
       (''Unable to generate a report for '' @ [CHR 0x27] @ ticker params @ [CHR 0x27] @
        ''. The ticker symbol might be incorrect, delisted, or not supported by the available data sources.'')
       (Some t) False"

definition parse_braces :: "parser \<Rightarrow> string \<Rightarrow> string \<Rightarrow> js_error + json" where
  \<comment> \<open>the lines every report function repeats: \<^verbatim>\<open>indexOf('{')\<close>, \<^verbatim>\<open>lastIndexOf('}')\<close>,
      \<^verbatim>\<open>substring\<close>, \<^verbatim>\<open>JSON.parse\<close>; \<open>failure\<close> is the message of the function's
      \<^verbatim>\<open>new Error\<close> for a missing brace\<close>
  "parse_braces parse t failure =
     (let firstBrace = indexOf t CHR ''{'';
          lastBrace = lastIndexOf t CHR ''}''
      in if firstBrace \<noteq> - 1 \<and> lastBrace \<noteq> - 1
         then (case parse (substring t firstBrace (lastBrace + 1)) of
                 Inl m \<Rightarrow> Inl (new_SyntaxError m)
               | Inr v \<Rightarrow> Inr v)
         else Inl (new_Error failure))"

definition text_or :: "string option \<Rightarrow> string \<Rightarrow> string" where
  \<comment> \<open>\<^verbatim>\<open>response.text || d\<close>\<close>
  "text_or t d = (case t of None \<Rightarrow> d | Some s \<Rightarrow> if s = [] then d else s)"

definition generateAnalysis ::
  "env \<Rightarrow> parser \<Rightarrow> (nat \<Rightarrow> js_error + string option) \<Rightarrow> SearchParams \<Rightarrow> state \<Rightarrow> json outcome" where
  "generateAnalysis e parse operation params st =
     (if apiKey e = [] then \<lparr>returned = Inl missing_api_key, model_calls = 0, final = st\<rparr>
      else
        (let r = retryOperation parse operation default_maxRetries default_initialDelay;
             body =
               (case result r of
                  Inl thrown \<Rightarrow> Inl thrown
                | Inr response \<Rightarrow>
                    (let t = clean (text_or response [])
                     in if is_refusal t then Inl (Some (ticker_not_found params t))
                        else (case parse_braces parse t
                                     ''Failed to parse analysis: Invalid JSON structure received.'' of
                                Inl error \<Rightarrow> Inl (Some error)
                              | Inr v \<Rightarrow> Inr v)))
         in \<lparr>returned =
               (case body of
                  Inl thrown \<Rightarrow> Inl (catch_handleApiError parse thrown)
                | Inr v \<Rightarrow> Inr v),
             model_calls = calls r, final = st\<rparr>))"

definition generateIPOReport ::
  "env \<Rightarrow> parser \<Rightarrow> (nat \<Rightarrow> js_error + string option) \<Rightarrow> string \<Rightarrow> state \<Rightarrow> json outcome" where
  "generateIPOReport e parse operation ipoName st =
     (if apiKey e = [] then \<lparr>returned = Inl missing_api_key, model_calls = 0, final = st\<rparr>
      else
        (let r = retryOperation parse operation default_maxRetries default_initialDelay;
             body =
               (case result r of
                  Inl thrown \<Rightarrow> Inl thrown
                | Inr response \<Rightarrow>
                    (case parse_braces parse (clean (text_or response []))
                           ''Failed to parse IPO report.'' of
                       Inl error \<Rightarrow> Inl (Some error)
                     | Inr v \<Rightarrow> Inr v))
         in \<lparr>returned =
               (case body of
                  Inl thrown \<Rightarrow> Inl (catch_handleApiError parse thrown)
                | Inr v \<Rightarrow> Inr v),
             model_calls = calls r, final = st\<rparr>))"

definition getMarketOverview ::
  "env \<Rightarrow> parser \<Rightarrow> (nat \<Rightarrow> js_error + string option) \<Rightarrow> bool \<Rightarrow> int \<Rightarrow> int \<Rightarrow> int \<Rightarrow> state
     \<Rightarrow> json option outcome" where
  "getMarketOverview e parse operation forceRefresh now stored_at saved_at st =
     (if apiKey e = [] then \<lparr>returned = Inl missing_api_key, model_calls = 0, final = st\<rparr>
      else if is_fresh forceRefresh (marketCache st) now MARKET_CACHE_TTL
      then \<lparr>returned = Inr (case marketCache st of None \<Rightarrow> None | Some c \<Rightarrow> data c),
            model_calls = 0, final = st\<rparr>
      else
        (let r = retryOperation parse operation default_maxRetries default_initialDelay;
             body =
               (case result r of
                  Inl thrown \<Rightarrow> Inl thrown
                | Inr response \<Rightarrow>
                    (if text_or response [] = []
                     then Inl (Some (new_Error
                       ''Empty response received. The AI model might have filtered the content due to safety settings.''))
                     else (case parse_braces parse (clean (text_or response []))
                                  ''Failed to parse market data: Invalid JSON structure.'' of
                             Inl error \<Rightarrow> Inl (Some error)
                           | Inr v \<Rightarrow> Inr v)))
         in case body of
              Inl thrown \<Rightarrow>
                \<lparr>returned = Inl (catch_handleApiError parse thrown), model_calls = calls r,
                 final = st\<rparr>
            | Inr v \<Rightarrow>
                \<lparr>returned = Inr (Some v), model_calls = calls r,
                 final = saveCache e STORAGE_KEYS_MARKET (Some v) saved_at
                           (st\<lparr>marketCache := Some \<lparr>data = Some v, timestamp = stored_at\<rparr>\<rparr>)\<rparr>))"

definition read_list :: "json \<Rightarrow> string \<Rightarrow> js_error + json option" where
  \<comment> \<open>\<^verbatim>\<open>json.matches\<close> and \<^verbatim>\<open>json.ipos\<close>: \<^verbatim>\<open>undefined\<close> when the property is absent; the
      read raises on \<^verbatim>\<open>null\<close>, with the engine's message\<close>
  "read_list v k =
     (if v = JNull
      then Inl (new_TypeError (''Cannot read properties of null (reading '' @ [CHR 0x27] @ k @
                  [CHR 0x27] @ '')''))
      else Inr (get_prop v k))"

definition screenStocks ::
  "env \<Rightarrow> parser \<Rightarrow> (nat \<Rightarrow> js_error + string option) \<Rightarrow> string \<Rightarrow> bool \<Rightarrow> int \<Rightarrow> int \<Rightarrow> state
     \<Rightarrow> json option outcome" where
  "screenStocks e parse operation query forceRefresh now stored_at st =
     (if apiKey e = [] then \<lparr>returned = Inl missing_api_key, model_calls = 0, final = st\<rparr>
      else
        (let cacheKey = getCacheKey query;
             cached = screenerCache st cacheKey
         in if is_fresh forceRefresh cached now SCREENER_CACHE_TTL
            then \<lparr>returned = Inr (case cached of None \<Rightarrow> None | Some c \<Rightarrow> data c),
                  model_calls = 0, final = st\<lparr>lastScreenerQuery := Some query\<rparr>\<rparr>
            else
              (let r = retryOperation parse operation default_maxRetries default_initialDelay;
                   body =
                     (case result r of
                        Inl thrown \<Rightarrow> Inl thrown
                      | Inr response \<Rightarrow>
                          (case parse_braces parse (clean (text_or response []))
                                 ''Failed to parse screener results.'' of
                             Inl error \<Rightarrow> Inl (Some error)
                           | Inr v \<Rightarrow>
                               (case read_list v ''matches'' of
                                  Inl error \<Rightarrow> Inl (Some error)
                                | Inr matches \<Rightarrow> Inr matches)))
               in case body of
                    Inl thrown \<Rightarrow>
                      \<lparr>returned = Inl (catch_handleApiError parse thrown), model_calls = calls r,
                       final = st\<rparr>
                  | Inr matches \<Rightarrow>
                      \<lparr>returned = Inr matches, model_calls = calls r,
                       final = st\<lparr>screenerCache :=
                                    (screenerCache st)(cacheKey \<mapsto>
                                       \<lparr>data = matches, timestamp = stored_at\<rparr>),
                                  lastScreenerQuery := Some query\<rparr>\<rparr>)))"

definition getScreenerState :: "state \<Rightarrow> (string \<times> json option) option" where
  \<comment> \<open>\<open>None\<close> is \<^verbatim>\<open>null\<close>; the empty string is falsy in \<^verbatim>\<open>if (lastScreenerQuery)\<close>\<close>
  "getScreenerState st =
     (case lastScreenerQuery st of
        None \<Rightarrow> None
      | Some q \<Rightarrow>
          (if q = [] then None
           else (case screenerCache st (getCacheKey q) of
                   None \<Rightarrow> None
                 | Some cached \<Rightarrow> Some (q, data cached))))"

definition fetchIPOList ::
  "env \<Rightarrow> parser \<Rightarrow> (nat \<Rightarrow> js_error + string option) \<Rightarrow> bool \<Rightarrow> int \<Rightarrow> int \<Rightarrow> int \<Rightarrow> state
     \<Rightarrow> json option outcome" where
  "fetchIPOList e parse operation forceRefresh now stored_at saved_at st =
     (if apiKey e = [] then \<lparr>returned = Inl missing_api_key, model_calls = 0, final = st\<rparr>
      else if is_fresh forceRefresh (ipoListCache st) now IPO_CACHE_TTL
      then \<lparr>returned = Inr (case ipoListCache st of None \<Rightarrow> None | Some c \<Rightarrow> data c),
            model_calls = 0, final = st\<rparr>
      else
        (let r = retryOperation parse operation default_maxRetries default_initialDelay;
             body =
               (case result r of
                  Inl thrown \<Rightarrow> Inl thrown
                | Inr response \<Rightarrow>
                    (case parse_braces parse (clean (text_or response []))
                           ''Failed to parse IPO list.'' of
                       Inl error \<Rightarrow> Inl (Some error)
                     | Inr v \<Rightarrow>
                         (case read_list v ''ipos'' of
                            Inl error \<Rightarrow> Inl (Some error)
                          | Inr items \<Rightarrow> Inr items)))
         in case body of
              Inl thrown \<Rightarrow>
                \<lparr>returned = Inl (catch_handleApiError parse thrown), model_calls = calls r,
                 final = st\<rparr>
            | Inr items \<Rightarrow>
                \<lparr>returned = Inr items, model_calls = calls r,
                 final = saveCache e STORAGE_KEYS_IPO_LIST items saved_at
                           (st\<lparr>ipoListCache := Some \<lparr>data = items, timestamp = stored_at\<rparr>\<rparr>)\<rparr>))"

section \<open>The chat functions\<close>

definition generateChatResponseLite ::
  "env \<Rightarrow> parser \<Rightarrow> (nat \<Rightarrow> js_error + string option) \<Rightarrow> string \<Rightarrow> string \<Rightarrow> state
     \<Rightarrow> string outcome" where
  "generateChatResponseLite e parse operation msg context st =
     (if apiKey e = [] then
        \<lparr>returned = Inl (new_Error ''API Key Missing''), model_calls = 0, final = st\<rparr>
      else
        (let r = retryOperation parse operation default_maxRetries default_initialDelay
         in \<lparr>returned =
               Inr (case result r of
                      Inl thrown \<Rightarrow> ''I'' @ [CHR 0x27] @ ''m thinking...''
                    | Inr response \<Rightarrow> text_or response (''I'' @ [CHR 0x27] @ ''m processing that...'')),
             model_calls = calls r, final = st\<rparr>))"

definition generateChatResponseDetailed ::
  "env \<Rightarrow> parser \<Rightarrow> (nat \<Rightarrow> js_error + string option) \<Rightarrow> string \<Rightarrow> string \<Rightarrow> state
     \<Rightarrow> string outcome" where
  "generateChatResponseDetailed e parse operation msg context st =
     (if apiKey e = [] then
        \<lparr>returned = Inl (new_Error ''API Key Missing''), model_calls = 0, final = st\<rparr>
      else
        (let r = retryOperation parse operation default_maxRetries default_initialDelay
         in \<lparr>returned =
               Inr (case result r of
                      Inl thrown \<Rightarrow> ''Sorry, I encountered an error fetching detailed information.''
                    | Inr response \<Rightarrow>
                        text_or response (''I couldn'' @ [CHR 0x27] @ ''t generate a detailed response.'')),
             model_calls = calls r, final = st\<rparr>))"

section \<open>Classification by the retry executor\<close>

definition quota_classified :: "parser \<Rightarrow> js_error \<Rightarrow> bool" where
  \<comment> \<open>\<^verbatim>\<open>isQuota\<close> of line 78, for the failure \<open>error\<close>\<close>
  "quota_classified parse error =
     (case retry_unwrap parse error of (st, msg, error') \<Rightarrow> isQuota st msg)"

definition retryable :: "parser \<Rightarrow> js_error \<Rightarrow> bool" where
  \<comment> \<open>\<^verbatim>\<open>isQuota || isServer\<close> of line 85, for the failure \<open>error\<close>\<close>
  "retryable parse error =
     (case retry_unwrap parse error of (st, msg, error') \<Rightarrow> isQuota st msg \<or> isServer st msg)"

definition patched :: "parser \<Rightarrow> js_error \<Rightarrow> js_error" where
  \<comment> \<open>the error object as lines 71 and 72 leave it\<close>
  "patched parse error = snd (snd (retry_unwrap parse error))"

section \<open>Sample inputs\<close>

text \<open>
  The values of \<^verbatim>\<open>JSON.parse\<close> on the texts the examples below hand to it; on every other
  text this table answers with a \<^verbatim>\<open>SyntaxError\<close>.
\<close>

definition sample_parse :: parser where
  \<open>sample_parse s =
     (if s = ''{"a":1}'' then Inr (JObj [(''a'', JNum 1)])
      else if s = ''{"error":{"code":400,"message":"Invalid argument","status":"INVALID_ARGUMENT"}}''
      then Inr (JObj [(''error'', JObj [(''code'', JNum 400), (''message'', JStr ''Invalid argument''),
                                        (''status'', JStr ''INVALID_ARGUMENT'')])])
      else if s = ''{"error":{"message":"x"}}''
      then Inr (JObj [(''error'', JObj [(''message'', JStr ''x'')])])
      else if s = ''{"error":{"message":5}}''
      then Inr (JObj [(''error'', JObj [(''message'', JNum 5)])])
      else if s = ''{"note":"not a valid ticker"}''
      then Inr (JObj [(''note'', JStr ''not a valid ticker'')])
      else if s = ''{"matches":[]}'' then Inr (JObj [(''matches'', JArr [])])
      else if s = ''{"ipos":[]}'' then Inr (JObj [(''ipos'', JArr [])])
      else Inl ''Unexpected token'')\<close>

definition quota_error :: js_error where
  "quota_error = (new_Error ''Too many requests'')\<lparr>status := Some (JNum 429)\<rparr>"

definition invalid_argument_error :: js_error where
  \<open>invalid_argument_error =
     new_Error ''got status: 400 Bad Request. {"error":{"code":400,"message":"Invalid argument","status":"INVALID_ARGUMENT"}}''\<close>

definition fenced_json :: string where
  \<open>fenced_json = ''Sure! ```json'' @ [CHR 0x0A] @ ''{"a":1}'' @ [CHR 0x0A] @ ''```''\<close>

definition two_quota_failures :: "nat \<Rightarrow> js_error + string option" where
  "two_quota_failures i = (if i < 2 then Inl quota_error else Inr (Some fenced_json))"

definition sample_env :: env where
  "sample_env = \<lparr>apiKey = ''key'', window_defined = True, storage_throws = False\<rparr>"

definition no_key_env :: env where
  "no_key_env = \<lparr>apiKey = [], window_defined = True, storage_throws = False\<rparr>"

definition sample_params :: SearchParams where
  "sample_params = \<lparr>ticker = ''RELIANCE'', exchange = ''NSE'', horizon = ''swing'', lookback = 90\<rparr>"

definition plain_400_error :: js_error where
  "plain_400_error =
     (new_Error ''Request contains an invalid argument.'')\<lparr>status := Some (JNum 400)\<rparr>"

definition always_fails :: "js_error \<Rightarrow> nat \<Rightarrow> js_error + string option" where
  "always_fails error i = Inl error"

definition payload_ticker_params :: SearchParams where
  \<open>payload_ticker_params = sample_params\<lparr>ticker := ''{"error":{"message":"x"}}''\<rparr>\<close>

definition empty_title_descriptor :: js_error where
  "empty_title_descriptor = AnalysisError [] ''The ticker is delisted.'' None False"

definition sample_state :: state where
  "sample_state = initial_state sample_env Map.empty"



definition answers :: "string \<Rightarrow> nat \<Rightarrow> js_error + string option" where
  \<comment> \<open>a model that answers with the text \<open>t\<close> at once\<close>
  "answers t i = Inr (Some t)"

definition parsing_error :: "string \<Rightarrow> js_error" where
  \<comment> \<open>the descriptor of the parse row of the table, with the details \<open>d\<close>\<close>
  "parsing_error d =
     AnalysisError ''Data Parsing Error''
       ''The AI response could not be processed correctly. This is usually a temporary glitch.''
       (Some d) True"

definition table_keywords :: "string list" where
  \<comment> \<open>the keywords of the rows of the table that come before the parse row\<close>
  "table_keywords =
     [''failed to fetch'', ''networkerror'', ''network'', ''400'', ''invalid argument'', ''401'',
      ''api key'', ''403'', ''404'', ''429'', ''quota'', ''resource_exhausted'', ''500'', ''503'',
      ''overloaded'']"

definition refusing_json :: string where
  \<open>refusing_json = ''{"note":"not a valid ticker"}''\<close>

definition unfenced_json :: string where
  \<open>unfenced_json = ''Sure! '' @ [CHR 0x0A] @ ''{"a":1}''\<close>

definition invalid_request_400 :: js_error where
  "invalid_request_400 =
     AnalysisError ''Invalid Request''
       ''The request was rejected. This might be due to an invalid ticker symbol or safety filters triggering.''
       (Some ''Unexpected token } in JSON at position 400'') False"

definition cached_state :: state where
  \<comment> \<open>a module state with an entry in every cache, stored at time 1000\<close>
  "cached_state =
     \<lparr>marketCache = Some \<lparr>data = Some (JObj [(''market_sentiment'', JStr ''Bullish'')]),
                          timestamp = 1000\<rparr>,
      screenerCache = [''aapl'' \<mapsto> \<lparr>data = Some (JArr []), timestamp = 1000\<rparr>],
      lastScreenerQuery = Some ''AAPL'',
      ipoListCache = Some \<lparr>data = Some (JArr []), timestamp = 1000\<rparr>,
      localStorage = Map.empty\<rparr>"

definition screener_json :: string where
  \<open>screener_json = ''{"matches":[]}''\<close>

definition after_aapl :: state where
  "after_aapl =
     final (screenStocks sample_env sample_parse (answers screener_json) ''AAPL'' False 0 1
              sample_state)"

definition after_empty_query :: state where
  "after_empty_query =
     final (screenStocks sample_env sample_parse (answers screener_json) [] False 2 3 after_aapl)"

definition number_message_error :: js_error where
  \<comment> \<open>a failure whose message embeds a payload with a message that is no string\<close>
  \<open>number_message_error = new_Error ''{"error":{"message":5}}''\<close>

definition null_flag_failure :: js_error where
  \<comment> \<open>the failure \<^verbatim>\<open>{ title: "Busy", message: "Try later.", isRetryable: null }\<close>\<close>
  "null_flag_failure =
     \<lparr>status = None, code = None, message = Some ''Try later.'', title = Some (JStr ''Busy''),
      details = None, isRetryable = Some JNull, is_syntax_error = False, name = None\<rparr>"

definition number_ticker_params :: SearchParams where
  \<open>number_ticker_params = sample_params\<lparr>ticker := ''{"error":{"message":5}}''\<rparr>\<close>



section \<open>Reachable module states\<close>

text \<open>
  The module states that calls of the exported functions can produce, from the state in
  which the module is loaded.
\<close>

inductive reachable :: "env \<Rightarrow> state \<Rightarrow> bool" for e :: env where
  loaded: "reachable e (initial_state e slots)"
| analysis:
    "reachable e st \<Longrightarrow> reachable e (final (generateAnalysis e parse operation params st))"
| market:
    "reachable e st \<Longrightarrow>
     reachable e (final (getMarketOverview e parse operation forceRefresh now stored_at saved_at st))"
| screen:
    "reachable e st \<Longrightarrow>
     reachable e (final (screenStocks e parse operation query forceRefresh now stored_at st))"
| ipo_list:
    "reachable e st \<Longrightarrow>
     reachable e (final (fetchIPOList e parse operation forceRefresh now stored_at saved_at st))"
| ipo_report:
    "reachable e st \<Longrightarrow> reachable e (final (generateIPOReport e parse operation ipoName st))"
| chat_lite:
    "reachable e st \<Longrightarrow>
     reachable e (final (generateChatResponseLite e parse operation msg context st))"
| chat_detailed:
    "reachable e st \<Longrightarrow>
     reachable e (final (generateChatResponseDetailed e parse operation msg context st))"

definition screener_invariant :: "state \<Rightarrow> bool" where
  "screener_invariant st \<longleftrightarrow>
     (case lastScreenerQuery st of
        None \<Rightarrow> True
      | Some q \<Rightarrow> screenerCache st (getCacheKey q) \<noteq> None)"

section \<open>Properties of the string functions\<close>









section \<open>Cache-key normalization\<close>





lemma code_unit_char_of: "unat c < 256 \<Longrightarrow> (of_nat (of_char (char_of (unat c))) :: 16 word) = c"
  by simp


















section \<open>Properties of the retry executor\<close>

lemma retry_loop_success:
  "i < maxRetries \<Longrightarrow> operation i = Inr v \<Longrightarrow>
   retry_loop parse operation maxRetries initialDelay i lastError ws =
     \<lparr>result = Inr v, calls = Suc i, waits = ws\<rparr>"
  by (subst retry_loop.simps) simp

lemma retry_loop_retry:
  "Suc i < maxRetries \<Longrightarrow> operation i = Inl error \<Longrightarrow> retryable parse error \<Longrightarrow>
   retry_loop parse operation maxRetries initialDelay i lastError ws =
     retry_loop parse operation maxRetries initialDelay (Suc i) (Some (patched parse error))
       (ws @ [baseDelay (quota_classified parse error) initialDelay * 2 ^ i])"
  by (subst retry_loop.simps)
     (auto simp: retryable_def quota_classified_def patched_def split: prod.splits)

lemma retry_loop_throw:
  "i < maxRetries \<Longrightarrow> operation i = Inl error \<Longrightarrow>
   \<not> retryable parse error \<or> maxRetries \<le> Suc i \<Longrightarrow>
   retry_loop parse operation maxRetries initialDelay i lastError ws =
     \<lparr>result = Inl (Some (patched parse error)), calls = Suc i, waits = ws\<rparr>"
  by (subst retry_loop.simps)
     (auto simp: retryable_def patched_def split: prod.splits)

text \<open>
  C1.  Let the first two invocations of the operation fail with failures that the executor
  classifies as quota failures (status 429, or a quota marker in the message, after the
  nested payload is unwrapped), and let the third succeed with \<open>v\<close>.  Then
  \<^verbatim>\<open>retryOperation\<close> with its default \<^verbatim>\<open>maxRetries\<close> of 3 (and any initial delay) settles to
  \<open>v\<close>, has invoked the operation exactly 3 times, and has waited 5000 ms and then 10000 ms, so
  the wait before the third invocation is at least twice the wait before the second.  The
  base delay of a quota failure, 5000 ms, is longer than the base delay of a server failure,
  the default initial delay of 2000 ms.
\<close>

theorem retry_two_quota_failures:
  assumes "operation 0 = Inl e0" and "operation 1 = Inl e1" and "operation 2 = Inr v"
    and "quota_classified parse e0" and "quota_classified parse e1"
  shows "(let r = retryOperation parse operation default_maxRetries initialDelay
          in result r = Inr v \<and> calls r = 3 \<and> waits r = [5000, 10000] \<and>
             2 * (waits r ! 0) \<le> waits r ! 1) \<and>
         baseDelay False default_initialDelay < baseDelay True default_initialDelay"
proof -
  have r0: "retryable parse e0" and r1: "retryable parse e1"
    using assms(4,5) by (auto simp: retryable_def quota_classified_def split: prod.splits)
  have "retry_loop parse operation 3 initialDelay 0 None [] =
        retry_loop parse operation 3 initialDelay 1 (Some (patched parse e0)) [5000]"
    using retry_loop_retry [of 0 3 operation e0 parse initialDelay None "[]"] assms(1,4) r0
    by (simp add: baseDelay_def)
  also have "\<dots> =
        retry_loop parse operation 3 initialDelay 2 (Some (patched parse e1)) [5000, 10000]"
    using retry_loop_retry [of 1 3 operation e1 parse initialDelay "Some (patched parse e0)"
        "[5000]"] assms(2,5) r1
    by (simp add: baseDelay_def numeral_2_eq_2)
  also have "\<dots> = \<lparr>result = Inr v, calls = 3, waits = [5000, 10000]\<rparr>"
    using retry_loop_success [of 2 3 operation v parse initialDelay "Some (patched parse e1)"
        "[5000, 10000]"] assms(3)
    by (simp add: numeral_3_eq_3 numeral_2_eq_2)
  finally show ?thesis
    by (simp add: retryOperation_def default_maxRetries_def baseDelay_def
        default_initialDelay_def)
qed

lemma quota_error_classified: "quota_classified sample_parse quota_error"
  by (simp add: quota_classified_def retry_unwrap_def nested_error_def quota_error_def
      new_Error_def js_or_def isQuota_def)

theorem retry_two_quota_failures_witness:
  "result (retryOperation sample_parse two_quota_failures default_maxRetries
             default_initialDelay) = Inr (Some fenced_json) \<and>
   calls (retryOperation sample_parse two_quota_failures default_maxRetries
            default_initialDelay) = 3 \<and>
   waits (retryOperation sample_parse two_quota_failures default_maxRetries
            default_initialDelay) = [5000, 10000]"
  using retry_two_quota_failures [of two_quota_failures quota_error quota_error
      "Some fenced_json" sample_parse default_initialDelay]
  by (simp add: two_quota_failures_def quota_error_classified Let_def)

lemma retry_unwrap_frame:
  "retry_unwrap parse error = (st, msg, error') \<Longrightarrow>
   code error' = code error \<and> title error' = title error \<and> details error' = details error \<and>
   isRetryable error' = isRetryable error \<and> is_syntax_error error' = is_syntax_error error \<and>
   name error' = name error"
  by (auto simp: retry_unwrap_def Let_def split: option.splits json.splits if_splits)

lemma retry_unwrap_plain:
  "nested_error parse (message error) = None \<Longrightarrow>
   retry_unwrap parse error =
     (js_or (status error) (code error),
      toLowerCase (case message error of None \<Rightarrow> [] | Some m \<Rightarrow> m), error)"
  by (simp add: retry_unwrap_def Let_def)

lemma retry_unwrap_patch:
  "nested_error parse (message error) = Some e \<Longrightarrow> get_prop e ''message'' = Some (JStr s) \<Longrightarrow>
   s \<noteq> [] \<Longrightarrow> retry_unwrap parse error = (st, msg, error') \<Longrightarrow>
   message error' = Some s \<and>
   status error' = (if truthy (get_prop e ''code'') then get_prop e ''code''
                    else js_or (status error) (code error))"
  by (auto simp: retry_unwrap_def Let_def)

lemma retry_unwrap_same_object:
  "retry_unwrap parse error = (st, msg, error') \<Longrightarrow>
   error' = error\<lparr>status := status error', message := message error'\<rparr>"
  by (auto simp: retry_unwrap_def Let_def split: option.splits json.splits if_splits)

text \<open>
  C2 (as amended).  Let the first invocation of the operation fail with a failure that the
  executor classifies neither as a quota nor as a server failure.  Then \<^verbatim>\<open>retryOperation\<close>
  (with at least one attempt allowed) invokes the operation exactly once, waits for nothing,
  and throws that error object as its own patch has left it: every property but \<^verbatim>\<open>status\<close>
  and \<^verbatim>\<open>message\<close> is as the operation threw it.  When the message embeds a JSON error
  payload whose own message is a non-empty string, \<^verbatim>\<open>message\<close> is overwritten with that
  string (so \<^verbatim>\<open>String(error)\<close> of an \<^verbatim>\<open>Error\<close> changes with it) and \<^verbatim>\<open>status\<close> with the
  code of the payload when that code is truthy, and with \<^verbatim>\<open>error.status || error.code\<close>
  otherwise.  When the message embeds no payload, the failure is propagated unchanged.
\<close>

theorem retry_non_retryable:
  assumes "operation 0 = Inl error" and "\<not> retryable parse error" and "0 < maxRetries"
  shows "(let r = retryOperation parse operation maxRetries initialDelay;
              error' = patched parse error
          in result r = Inl (Some error') \<and> calls r = 1 \<and> waits r = [] \<and>
             error' = error\<lparr>status := status error', message := message error'\<rparr> \<and>
             (\<forall>e s. nested_error parse (message error) = Some e \<and>
                    get_prop e ''message'' = Some (JStr s) \<and> s \<noteq> [] \<longrightarrow>
                    message error' = Some s \<and>
                    status error' = (if truthy (get_prop e ''code'') then get_prop e ''code''
                                     else js_or (status error) (code error)) \<and>
                    String error' = String (error\<lparr>message := Some s\<rparr>)) \<and>
             (nested_error parse (message error) = None \<longrightarrow> error' = error))"
proof -
  obtain st msg error' where u: "retry_unwrap parse error = (st, msg, error')"
    by (cases "retry_unwrap parse error") auto
  have p: "patched parse error = error'"
    by (simp add: patched_def u)
  have r: "retryOperation parse operation maxRetries initialDelay =
        \<lparr>result = Inl (Some (patched parse error)), calls = 1, waits = []\<rparr>"
    unfolding retryOperation_def
    using retry_loop_throw [of 0 maxRetries operation error parse initialDelay None "[]"] assms
    by simp
  have n: "nested_error parse (message error) = None \<Longrightarrow> error' = error"
    using u by (simp add: retry_unwrap_plain)
  have same: "error' = error\<lparr>status := status error', message := message error'\<rparr>"
    using u by (rule retry_unwrap_same_object)
  have patch: "message error' = Some s \<and>
               status error' = (if truthy (get_prop e ''code'') then get_prop e ''code''
                                else js_or (status error) (code error)) \<and>
               String error' = String (error\<lparr>message := Some s\<rparr>)"
    if "nested_error parse (message error) = Some e" "get_prop e ''message'' = Some (JStr s)"
      "s \<noteq> []" for e s
  proof -
    have m: "message error' = Some s \<and>
             status error' = (if truthy (get_prop e ''code'') then get_prop e ''code''
                              else js_or (status error) (code error))"
      using retry_unwrap_patch [OF that u] .
    have "name error' = name error"
      using retry_unwrap_frame [OF u] by simp
    then have "String error' = String (error\<lparr>message := Some s\<rparr>)"
      using m by (cases "name error") (simp_all add: String_def Let_def)
    then show ?thesis using m by simp
  qed
  show ?thesis
    unfolding Let_def p r using same n patch by auto
qed

lemma plain_400_no_payload: "nested_error sample_parse (message plain_400_error) = None"
  by (simp add: nested_error_def plain_400_error_def new_Error_def)

lemma plain_400_not_retryable: "\<not> retryable sample_parse plain_400_error"
  by (simp add: retryable_def retry_unwrap_plain plain_400_no_payload)
     (simp add: plain_400_error_def new_Error_def js_or_def isQuota_def isServer_def
       toLowerCase_def lower_char_def is_upper_def)

theorem retry_non_retryable_witness:
  "result (retryOperation sample_parse (always_fails plain_400_error) default_maxRetries
             default_initialDelay) = Inl (Some plain_400_error) \<and>
   calls (retryOperation sample_parse (always_fails plain_400_error) default_maxRetries
            default_initialDelay) = 1"
  using retry_non_retryable [of "always_fails plain_400_error" plain_400_error sample_parse
      default_maxRetries default_initialDelay]
  by (simp add: plain_400_not_retryable plain_400_no_payload default_maxRetries_def Let_def
      always_fails_def)

lemma invalid_argument_unwrap:
  "retry_unwrap sample_parse invalid_argument_error =
     (Some (JNum 400), ''invalid argument'',
      invalid_argument_error\<lparr>status := Some (JNum 400), message := Some ''Invalid argument''\<rparr>)"
  by (simp add: retry_unwrap_def nested_error_def invalid_argument_error_def new_Error_def
      js_or_def sample_parse_def is_line_terminator_def toLowerCase_def lower_char_def
      is_upper_def Let_def)

lemma invalid_argument_not_retryable: "\<not> retryable sample_parse invalid_argument_error"
  by (simp add: retryable_def invalid_argument_unwrap isQuota_def isServer_def)

text \<open>
  C2 as stated fails: the failure is not propagated with the status and message the
  operation threw.  An \<^verbatim>\<open>Error\<close> without a status whose message is
  \<^verbatim>\<open>got status: 400 Bad Request. {"error":{"code":400,"message":"Invalid argument",...}}\<close>
  is not retried, and leaves \<^verbatim>\<open>retryOperation\<close> with status 400 and the message
  \<^verbatim>\<open>Invalid argument\<close>, so that \<^verbatim>\<open>String(error)\<close> has become \<^verbatim>\<open>Error: Invalid argument\<close>.
\<close>

theorem retry_patches_failure:
  "\<not> retryable sample_parse invalid_argument_error \<and>
   status invalid_argument_error = None \<and>
   result (retryOperation sample_parse (always_fails invalid_argument_error)
             default_maxRetries default_initialDelay) =
     Inl (Some (invalid_argument_error\<lparr>status := Some (JNum 400),
                                        message := Some ''Invalid argument''\<rparr>)) \<and>
   calls (retryOperation sample_parse (always_fails invalid_argument_error)
            default_maxRetries default_initialDelay) = 1 \<and>
   message (invalid_argument_error\<lparr>status := Some (JNum 400),
                                    message := Some ''Invalid argument''\<rparr>)
     \<noteq> message invalid_argument_error \<and>
   String (invalid_argument_error\<lparr>status := Some (JNum 400),
                                   message := Some ''Invalid argument''\<rparr>) =
     ''Error: Invalid argument''"
proof -
  have "retry_loop sample_parse (always_fails invalid_argument_error)
          3 default_initialDelay 0 None [] =
        \<lparr>result = Inl (Some (patched sample_parse invalid_argument_error)), calls = 1,
         waits = []\<rparr>"
    using invalid_argument_not_retryable by (simp add: retry_loop_throw always_fails_def)
  then show ?thesis
    using invalid_argument_not_retryable
    by (simp add: retryOperation_def default_maxRetries_def patched_def invalid_argument_unwrap)
       (simp add: invalid_argument_error_def new_Error_def String_def)
qed

section \<open>Properties of the error normalizer\<close>

lemma normalizer_unwrap_frame:
  "normalizer_unwrap parse error = Some error' \<Longrightarrow>
   code error' = code error \<and> title error' = title error \<and> details error' = details error \<and>
   isRetryable error' = isRetryable error \<and> is_syntax_error error' = is_syntax_error error \<and>
   name error' = name error"
  by (auto simp: normalizer_unwrap_def Let_def split: option.splits json.splits if_splits)

lemma normalizer_unwrap_message:
  "normalizer_unwrap parse error = Some error' \<Longrightarrow> message error = Some m \<Longrightarrow> m \<noteq> [] \<Longrightarrow>
   \<exists>m'. message error' = Some m' \<and> m' \<noteq> []"
  by (auto simp: normalizer_unwrap_def Let_def split: option.splits json.splits if_splits)

lemma normalizer_unwrap_plain:
  "nested_error parse (message error) = None \<Longrightarrow> normalizer_unwrap parse error = Some error"
  by (simp add: normalizer_unwrap_def)

lemma handleApiError_rethrows:
  assumes "truthy (title error)" and "message error = Some m" and "m \<noteq> []"
    and "isRetryable error \<noteq> None"
    and "normalizer_unwrap parse error = Some error'"
  shows "handleApiError parse error = error' \<and> title error' = title error \<and>
         details error' = details error \<and> isRetryable error' = isRetryable error \<and>
         code error' = code error \<and> is_syntax_error error' = is_syntax_error error \<and>
         name error' = name error \<and>
         (nested_error parse (message error) = None \<longrightarrow> error' = error)"
proof -
  obtain m' where m': "message error' = Some m'" "m' \<noteq> []"
    using normalizer_unwrap_message [OF assms(5) assms(2) assms(3)] by blast
  have fr: "title error' = title error" "isRetryable error' = isRetryable error"
    using normalizer_unwrap_frame [OF assms(5)] by simp_all
  have "passes_through error'"
    using m' fr assms(1,4) by (simp add: passes_through_def)
  then have "handleApiError parse error = error'"
    using assms(5) by (simp add: handleApiError_def)
  moreover have "nested_error parse (message error) = None \<Longrightarrow> error' = error"
    using assms(5) by (simp add: normalizer_unwrap_plain)
  ultimately show ?thesis
    using normalizer_unwrap_frame [OF assms(5)] by simp
qed








text \<open>
  C6 (as amended).  A raw failure that carries a non-empty title, a non-empty message and a
  defined \<^verbatim>\<open>isRetryable\<close> flag, and whose message embeds no JSON error payload, is rethrown
  by \<^verbatim>\<open>handleApiError\<close> unchanged: same title, message, details, retry flag and status, and
  no classification by the status and keyword table.
\<close>

theorem handleApiError_unchanged:
  assumes "title error = Some (JStr t)" and "t \<noteq> []" and "message error = Some m" and "m \<noteq> []"
    and "isRetryable error \<noteq> None"
    and "nested_error parse (message error) = None"
  shows "handleApiError parse error = error"
proof -
  have "truthy (title error)"
    using assms(1,2) by simp
  then show ?thesis
    using handleApiError_rethrows [OF _ assms(3-5) normalizer_unwrap_plain [OF assms(6)]]
    by simp
qed

theorem handleApiError_unchanged_witness:
  "handleApiError sample_parse missing_api_key = missing_api_key"
  using handleApiError_unchanged [of missing_api_key "''Missing API Key''"
      "''API Key is not configured.''" sample_parse]
  by (simp add: missing_api_key_def AnalysisError_def nested_error_def)

lemma payload_ticker_match:
  \<open>json_match (message_or_empty (ticker_not_found payload_ticker_params ''cannot find'')) =
     Some ''{"error":{"message":"x"}}''\<close>
  by (simp add: message_or_empty_def ticker_not_found_def payload_ticker_params_def
      sample_params_def AnalysisError_def is_line_terminator_def)

text \<open>
  C6 as stated fails twice.  The test of line 127 is a test for truthiness: a failure with
  the title \<^verbatim>\<open>""\<close>, a message and \<^verbatim>\<open>isRetryable: false\<close> is classified by the table and
  leaves as the retryable \<^verbatim>\<open>Analysis Failed\<close>.  And the nested payload is unwrapped before
  the test: the \<^verbatim>\<open>Ticker Not Found\<close> descriptor for the ticker \<^verbatim>\<open>{"error":{"message":"x"}}\<close>
  is rethrown with the message \<^verbatim>\<open>x\<close>.
\<close>

theorem handleApiError_changes_descriptor:
  "handleApiError sample_parse empty_title_descriptor =
     AnalysisError ''Analysis Failed'' ''An unexpected error occurred while generating the report.''
       (Some ''The ticker is delisted.'') True \<and>
   isRetryable empty_title_descriptor = Some (JBool False) \<and>
   handleApiError sample_parse (ticker_not_found payload_ticker_params ''cannot find'') =
     (ticker_not_found payload_ticker_params ''cannot find'')\<lparr>message := Some ''x''\<rparr> \<and>
   message (ticker_not_found payload_ticker_params ''cannot find'') \<noteq> Some ''x''"
proof -
  have a: "nested_error sample_parse (message empty_title_descriptor) = None"
    by (simp add: nested_error_def empty_title_descriptor_def AnalysisError_def)
  have "handleApiError sample_parse empty_title_descriptor =
     AnalysisError ''Analysis Failed'' ''An unexpected error occurred while generating the report.''
       (Some ''The ticker is delisted.'') True"
    apply (simp add: handleApiError_def normalizer_unwrap_plain [OF a])
    apply (simp add: empty_title_descriptor_def AnalysisError_def passes_through_def
        message_or_empty_def js_or_def toLowerCase_def lower_char_def is_upper_def classify_def)
    done
  moreover have "isRetryable empty_title_descriptor = Some (JBool False)"
    by (simp add: empty_title_descriptor_def AnalysisError_def)
  moreover have "handleApiError sample_parse (ticker_not_found payload_ticker_params ''cannot find'') =
     (ticker_not_found payload_ticker_params ''cannot find'')\<lparr>message := Some ''x''\<rparr>"
  proof -
    have m: "message (ticker_not_found payload_ticker_params ''cannot find'') =
             Some (message_or_empty (ticker_not_found payload_ticker_params ''cannot find''))"
      by (simp add: message_or_empty_def ticker_not_found_def AnalysisError_def)
    have n: "nested_error sample_parse (message (ticker_not_found payload_ticker_params ''cannot find''))
             = Some (JObj [(''message'', JStr ''x'')])"
      unfolding m by (simp add: nested_error_def payload_ticker_match sample_parse_def)
    have u: "normalizer_unwrap sample_parse (ticker_not_found payload_ticker_params ''cannot find'') =
          Some ((ticker_not_found payload_ticker_params ''cannot find'')\<lparr>message := Some ''x''\<rparr>)"
      by (simp add: normalizer_unwrap_def n)
    show ?thesis
      by (simp add: handleApiError_def u passes_through_def)
         (simp add: ticker_not_found_def AnalysisError_def)
  qed
  moreover have "message (ticker_not_found payload_ticker_params ''cannot find'') \<noteq> Some ''x''"
    by (simp add: ticker_not_found_def AnalysisError_def)
  ultimately show ?thesis by simp
qed

section \<open>Errors surfaced by the exported functions\<close>

lemma retry_loop_thrown:
  "i < maxRetries \<Longrightarrow>
   result (retry_loop parse operation maxRetries initialDelay i lastError ws) \<noteq> Inl None \<and>
   i < calls (retry_loop parse operation maxRetries initialDelay i lastError ws)"
proof (induction parse operation maxRetries initialDelay i lastError ws rule: retry_loop.induct)
  case (1 parse operation maxRetries initialDelay i lastError ws)
  show ?case
  proof (cases "operation i")
    case (Inr v)
    then show ?thesis using "1.prems" by (simp add: retry_loop_success)
  next
    case (Inl error)
    show ?thesis
    proof (cases "retryable parse error \<and> Suc i < maxRetries")
      case True
      obtain st msg error' where u: "retry_unwrap parse error = (st, msg, error')"
        by (cases "retry_unwrap parse error") auto
      have c: "(isQuota st msg \<or> isServer st msg) \<and> i < maxRetries - 1"
        using True u by (auto simp: retryable_def)
      have "result (retry_loop parse operation maxRetries initialDelay (Suc i) (Some error')
                 (ws @ [baseDelay (isQuota st msg) initialDelay * 2 ^ i])) \<noteq> Inl None \<and>
            Suc i < calls (retry_loop parse operation maxRetries initialDelay (Suc i) (Some error')
                 (ws @ [baseDelay (isQuota st msg) initialDelay * 2 ^ i]))"
        using "1.IH" [OF "1.prems" Inl u [symmetric] refl c] True by simp
      moreover have "retry_loop parse operation maxRetries initialDelay i lastError ws =
            retry_loop parse operation maxRetries initialDelay (Suc i) (Some error')
                 (ws @ [baseDelay (isQuota st msg) initialDelay * 2 ^ i])"
        using retry_loop_retry [of i maxRetries operation error parse initialDelay lastError ws]
          True Inl u by (simp add: patched_def quota_classified_def)
      ultimately show ?thesis by simp
    next
      case False
      then have "\<not> retryable parse error \<or> maxRetries \<le> Suc i" by auto
      then show ?thesis using "1.prems" Inl by (simp add: retry_loop_throw)
    qed
  qed
qed

lemma retryOperation_thrown:
  "result (retryOperation parse operation default_maxRetries initialDelay) \<noteq> Inl None"
  using retry_loop_thrown [of 0 default_maxRetries parse operation initialDelay None "[]"]
  by (simp add: retryOperation_def default_maxRetries_def)

lemma retryOperation_invokes:
  "0 < calls (retryOperation parse operation default_maxRetries initialDelay)"
  using retry_loop_thrown [of 0 default_maxRetries parse operation initialDelay None "[]"]
  by (simp add: retryOperation_def default_maxRetries_def)




























text \<open>
  Both provisos of the amended C3 are needed.  A failure whose message is
  \<^verbatim>\<open>{"error":{"message":5}}\<close> makes \<^verbatim>\<open>handleApiError\<close> store the number 5 as the message and
  raise the \<^verbatim>\<open>TypeError\<close> of line 124, which \<^verbatim>\<open>generateAnalysis\<close> surfaces.  And the failure
  \<^verbatim>\<open>{ title: "Busy", message: "Try later.", isRetryable: null }\<close> passes the test of line 127
  and is surfaced as it is, with a retry flag that is no boolean.
\<close>

lemma number_message_unwrap:
  "nested_error sample_parse (message number_message_error) =
     Some (JObj [(''message'', JNum 5)])"
  by (simp add: nested_error_def number_message_error_def new_Error_def sample_parse_def
      is_line_terminator_def)

lemma number_message_retry:
  "retryOperation sample_parse (always_fails number_message_error) default_maxRetries
     default_initialDelay =
     \<lparr>result = Inl (Some number_message_error), calls = 1, waits = []\<rparr>"
proof -
  have u: \<open>retry_unwrap sample_parse number_message_error =
           (None, toLowerCase ''{"error":{"message":5}}'', number_message_error)\<close>
    by (simp add: retry_unwrap_def number_message_unwrap Let_def)
       (simp add: number_message_error_def new_Error_def js_or_def)
  have "\<not> retryable sample_parse number_message_error"
    by (simp add: retryable_def u isQuota_def isServer_def)
       (simp add: toLowerCase_def lower_char_def is_upper_def)
  moreover have "patched sample_parse number_message_error = number_message_error"
    by (simp add: patched_def u)
  ultimately show ?thesis
    by (simp add: retryOperation_def default_maxRetries_def retry_loop_throw always_fails_def)
qed

lemma line_124_raises:
  "returned (generateAnalysis sample_env sample_parse (always_fails number_message_error)
     sample_params sample_state) = Inl normalizer_TypeError \<and>
   \<not> is_ErrorDescriptor normalizer_TypeError"
proof -
  have "normalizer_unwrap sample_parse number_message_error = None"
    by (simp add: normalizer_unwrap_def number_message_unwrap Let_def)
  then have "handleApiError sample_parse number_message_error = normalizer_TypeError"
    by (simp add: handleApiError_def)
  then have "returned (generateAnalysis sample_env sample_parse
      (always_fails number_message_error) sample_params sample_state) = Inl normalizer_TypeError"
    by (simp add: generateAnalysis_def sample_env_def number_message_retry
        catch_handleApiError_def)
  moreover have "\<not> is_ErrorDescriptor normalizer_TypeError"
    by (simp add: is_ErrorDescriptor_def normalizer_TypeError_def new_TypeError_def)
  ultimately show ?thesis by simp
qed

lemma null_flag_retry:
  "retryOperation sample_parse (always_fails null_flag_failure) default_maxRetries
     default_initialDelay =
     \<lparr>result = Inl (Some null_flag_failure), calls = 1, waits = []\<rparr>"
proof -
  have n: "nested_error sample_parse (message null_flag_failure) = None"
    by (simp add: nested_error_def null_flag_failure_def)
  have "\<not> retryable sample_parse null_flag_failure"
    by (simp add: retryable_def retry_unwrap_plain n)
       (simp add: null_flag_failure_def js_or_def isQuota_def isServer_def toLowerCase_def
         lower_char_def is_upper_def)
  moreover have "patched sample_parse null_flag_failure = null_flag_failure"
    by (simp add: patched_def retry_unwrap_plain n)
  ultimately show ?thesis
    by (simp add: retryOperation_def default_maxRetries_def retry_loop_throw always_fails_def)
qed

lemma rethrown_by_truthiness:
  "returned (generateAnalysis sample_env sample_parse (always_fails null_flag_failure)
     sample_params sample_state) = Inl null_flag_failure \<and>
   passes_through null_flag_failure \<and> \<not> is_ErrorDescriptor null_flag_failure"
proof -
  have n: "nested_error sample_parse (message null_flag_failure) = None"
    by (simp add: nested_error_def null_flag_failure_def)
  have p: "passes_through null_flag_failure"
    by (simp add: passes_through_def null_flag_failure_def)
  then have "handleApiError sample_parse null_flag_failure = null_flag_failure"
    by (simp add: handleApiError_def normalizer_unwrap_plain [OF n])
  then have "returned (generateAnalysis sample_env sample_parse (always_fails null_flag_failure)
      sample_params sample_state) = Inl null_flag_failure"
    by (simp add: generateAnalysis_def sample_env_def null_flag_retry catch_handleApiError_def)
  moreover have "\<not> is_ErrorDescriptor null_flag_failure"
    by (simp add: is_ErrorDescriptor_def null_flag_failure_def)
  ultimately show ?thesis using p by simp
qed


section \<open>Refusals in \<^verbatim>\<open>generateAnalysis\<close>\<close>

lemma json_match_no_brace: "CHR ''}'' \<notin> set s \<Longrightarrow> json_match s = None"
proof (induction s)
  case Nil
  then show ?case by simp
next
  case (Cons c s)
  have "CHR ''}'' \<notin> set (takeWhile (\<lambda>x. \<not> is_line_terminator x) s)"
    using Cons.prems set_takeWhileD by fastforce
  then show ?case using Cons by (simp add: Let_def)
qed

lemma ticker_not_found_plain:
  assumes "CHR ''}'' \<notin> set (ticker params)"
  shows "nested_error parse (message (ticker_not_found params t)) = None"
proof -
  have "json_match (''Unable to generate a report for '' @ [CHR 0x27] @ ticker params @
          [CHR 0x27] @
          ''. The ticker symbol might be incorrect, delisted, or not supported by the available data sources.'')
        = None"
    using assms by (intro json_match_no_brace) simp
  then show ?thesis
    by (simp add: nested_error_def ticker_not_found_def AnalysisError_def)
qed





lemma answers_retry:
  "retryOperation parse (answers t) default_maxRetries initialDelay =
     \<lparr>result = Inr (Some t), calls = 1, waits = []\<rparr>"
  by (simp add: retryOperation_def default_maxRetries_def retry_loop_success answers_def)




lemma number_ticker_payload:
  "payload_message_no_string sample_parse
     (ticker_not_found number_ticker_params ''no data available for XYZ'')"
proof -
  have "json_match (''Unable to generate a report for '' @ [CHR 0x27] @
          ticker number_ticker_params @ [CHR 0x27] @
          ''. The ticker symbol might be incorrect, delisted, or not supported by the available data sources.'')
        = Some (ticker number_ticker_params)"
    by (simp add: number_ticker_params_def sample_params_def is_line_terminator_def)
  then have "nested_error sample_parse
               (message (ticker_not_found number_ticker_params ''no data available for XYZ'')) =
             Some (JObj [(''message'', JNum 5)])"
    by (simp add: nested_error_def ticker_not_found_def AnalysisError_def)
       (simp add: number_ticker_params_def sample_params_def sample_parse_def)
  then show ?thesis
    by (simp add: payload_message_no_string_def)
qed




section \<open>Response extraction in \<^verbatim>\<open>generateAnalysis\<close>\<close>

lemma indexOf_absent: "c \<notin> set s \<Longrightarrow> indexOf s c = - 1"
  by (simp add: indexOf_def)

lemma indexOf_present: "c \<in> set s \<Longrightarrow> indexOf s c \<noteq> - 1"
  by (simp add: indexOf_def)

lemma lastIndexOf_absent: "c \<notin> set s \<Longrightarrow> lastIndexOf s c = - 1"
  by (simp add: lastIndexOf_def)

lemma takeWhile_neq_less: "c \<in> set s \<Longrightarrow> length (takeWhile (\<lambda>x. x \<noteq> c) s) < length s"
  by (induction s) auto

lemma takeWhile_rev_less: "c \<in> set s \<Longrightarrow> length (takeWhile (\<lambda>x. x \<noteq> c) (rev s)) < length s"
  using takeWhile_neq_less [of c "rev s"] by simp

lemma lastIndexOf_present: "c \<in> set s \<Longrightarrow> lastIndexOf s c \<noteq> - 1"
  using takeWhile_rev_less [of c s] by (simp add: lastIndexOf_def)

lemma substring_nat:
  "i \<le> j \<Longrightarrow> j \<le> length s \<Longrightarrow> substring s (int i) (int j) = take (j - i) (drop i s)"
  by (simp add: substring_def Let_def min_def max_def nat_diff_distrib)

lemma substring_braces:
  assumes a: "a \<in> set t" and b: "b \<in> set t" and le: "indexOf t a \<le> lastIndexOf t b"
  shows "\<exists>pre payload post.
           t = pre @ payload @ post \<and> a \<notin> set pre \<and> b \<notin> set post \<and>
           payload \<noteq> [] \<and> hd payload = a \<and> last payload = b \<and>
           substring t (indexOf t a) (lastIndexOf t b + 1) = payload"
proof -
  define pre where "pre = takeWhile (\<lambda>x. x \<noteq> a) t"
  define post where "post = rev (takeWhile (\<lambda>x. x \<noteq> b) (rev t))"
  define front where "front = rev (dropWhile (\<lambda>x. x \<noteq> b) (rev t))"
  define payload where "payload = drop (length pre) front"
  have t_front: "t = front @ post"
    unfolding front_def post_def
    by (metis rev_append rev_rev_ident takeWhile_dropWhile_id)
  have post_len: "length post < length t"
    using takeWhile_rev_less [OF b] by (simp add: post_def)
  have front_len: "length front = length t - length post"
    using arg_cong [OF t_front, of length] by simp
  have i: "indexOf t a = int (length pre)"
    using a by (simp add: indexOf_def pre_def)
  have j: "lastIndexOf t b = int (length t) - 1 - int (length post)"
    using b by (simp add: lastIndexOf_def post_def)
  have pre_le: "length pre < length front"
    using le post_len by (simp add: i j front_len)
  have b_post: "b \<notin> set post"
    using set_takeWhileD [of b "\<lambda>x. x \<noteq> b" "rev t"] by (auto simp: post_def)
  have a_pre: "a \<notin> set pre"
    using set_takeWhileD [of a "\<lambda>x. x \<noteq> a" t] by (auto simp: pre_def)
  have dw: "dropWhile (\<lambda>x. x \<noteq> b) (rev t) \<noteq> []"
    using b by (simp add: dropWhile_eq_Nil_conv) 
  have front_last: "last front = b"
  proof -
    have "hd (dropWhile (\<lambda>x. x \<noteq> b) (rev t)) = b"
      using hd_dropWhile [OF dw] by simp
    then show ?thesis using dw by (simp add: front_def last_rev)
  qed
  have pre_take: "take (length pre) front = pre"
  proof -
    have "take (length pre) t = pre"
      by (simp add: pre_def) (metis append_eq_conv_conj takeWhile_dropWhile_id)
    moreover have "take (length pre) t = take (length pre) front"
      using pre_le by (subst t_front) simp
    ultimately show ?thesis by simp
  qed
  have split: "front = pre @ payload"
    using pre_take by (metis append_take_drop_id payload_def)
  have ne: "payload \<noteq> []"
    using pre_le by (simp add: payload_def)
  have hd_pl: "hd payload = a"
  proof -
    have "dropWhile (\<lambda>x. x \<noteq> a) t \<noteq> []"
      using a by (simp add: dropWhile_eq_Nil_conv)
    then have h: "hd (dropWhile (\<lambda>x. x \<noteq> a) t) = a"
      using hd_dropWhile [of "\<lambda>x. x \<noteq> a" t] by simp
    have d: "pre @ dropWhile (\<lambda>x. x \<noteq> a) t = t"
      by (simp add: pre_def)
    have "pre @ dropWhile (\<lambda>x. x \<noteq> a) t = pre @ payload @ post"
      unfolding d using t_front split by simp
    then have "dropWhile (\<lambda>x. x \<noteq> a) t = payload @ post" by simp
    then show ?thesis using h ne by simp
  qed
  have last_pl: "last payload = b"
    using front_last split ne by simp
  have sub: "substring t (indexOf t a) (lastIndexOf t b + 1) = payload"
  proof -
    have fl: "length front \<le> length t"
      by (simp add: front_len)
    have "lastIndexOf t b + 1 = int (length front)"
      using post_len by (simp add: j front_len)
    then have "substring t (indexOf t a) (lastIndexOf t b + 1) =
          take (length front - length pre) (drop (length pre) t)"
      using pre_le fl by (simp add: i substring_nat)
    also have "\<dots> = take (length front - length pre) (payload @ post)"
      using t_front split by simp
    also have "\<dots> = payload"
      using split by simp
    finally show ?thesis .
  qed
  show ?thesis
    using t_front split a_pre b_post ne hd_pl last_pl sub by auto
qed

lemma handleApiError_plain:
  "nested_error parse (message error) = None \<Longrightarrow> \<not> passes_through error \<Longrightarrow>
   handleApiError parse error =
     classify (js_or (status error) (code error)) (toLowerCase (message_or_empty error))
       (is_syntax_error error)
       (if message_or_empty error \<noteq> [] then message_or_empty error else String error)"
  by (simp add: handleApiError_def normalizer_unwrap_plain)

lemma missing_brace_normalized:
  "handleApiError parse
     (new_Error ''Failed to parse analysis: Invalid JSON structure received.'') =
   parsing_error ''Failed to parse analysis: Invalid JSON structure received.''"
proof -
  have n: "nested_error parse
     (message (new_Error ''Failed to parse analysis: Invalid JSON structure received.'')) = None"
    by (simp add: nested_error_def new_Error_def)
  have p: "\<not> passes_through
     (new_Error ''Failed to parse analysis: Invalid JSON structure received.'')"
    by (simp add: passes_through_def new_Error_def)
  show ?thesis
    unfolding handleApiError_plain [OF n p]
    apply (simp add: new_Error_def message_or_empty_def js_or_def parsing_error_def)
    apply (simp add: classify_def toLowerCase_def lower_char_def is_upper_def)
    done
qed

lemma syntax_error_normalized:
  assumes "\<not> list_ex (str_includes (toLowerCase m)) table_keywords"
    and "nested_error parse (Some m) = None"
  shows "handleApiError parse (new_SyntaxError m) =
         parsing_error (if m \<noteq> [] then m else ''SyntaxError'')"
proof -
  have n: "nested_error parse (message (new_SyntaxError m)) = None"
    using assms(2) by (simp add: new_SyntaxError_def)
  have p: "\<not> passes_through (new_SyntaxError m)"
    by (simp add: passes_through_def new_SyntaxError_def)
  have k: "classify None (toLowerCase m) True d = parsing_error d" for d
    using assms(1) by (simp add: table_keywords_def classify_def parsing_error_def)
  have f: "js_or (status (new_SyntaxError m)) (code (new_SyntaxError m)) = None"
      "message_or_empty (new_SyntaxError m) = m" "is_syntax_error (new_SyntaxError m) = True"
    by (simp_all add: new_SyntaxError_def js_or_def message_or_empty_def)
  have d: "(if m \<noteq> [] then m else String (new_SyntaxError m)) =
           (if m \<noteq> [] then m else ''SyntaxError'')"
    by (simp add: new_SyntaxError_def String_def)
  show ?thesis
    unfolding handleApiError_plain [OF n p] f d by (simp only: k)
qed

lemma parse_braces_missing:
  "CHR ''{'' \<notin> set t \<or> CHR ''}'' \<notin> set t \<Longrightarrow>
   parse_braces parse t failure = Inl (new_Error failure)"
  by (auto simp: parse_braces_def Let_def indexOf_absent lastIndexOf_absent)

lemma parse_braces_present:
  "CHR ''{'' \<in> set t \<Longrightarrow> CHR ''}'' \<in> set t \<Longrightarrow>
   parse_braces parse t failure =
     (case parse (substring t (indexOf t CHR ''{'') (lastIndexOf t CHR ''}'' + 1)) of
        Inl m \<Rightarrow> Inl (new_SyntaxError m)
      | Inr v \<Rightarrow> Inr v)"
  by (simp add: parse_braces_def Let_def indexOf_present lastIndexOf_present)

lemma generateAnalysis_extracts:
  assumes "apiKey e \<noteq> []"
    and "result (retryOperation parse operation default_maxRetries default_initialDelay) =
         Inr response"
    and "\<not> is_refusal (clean (text_or response []))"
  shows "returned (generateAnalysis e parse operation params st) =
     (case parse_braces parse (clean (text_or response []))
             ''Failed to parse analysis: Invalid JSON structure received.'' of
        Inl error \<Rightarrow> Inl (handleApiError parse error)
      | Inr v \<Rightarrow> Inr v)"
  using assms
  by (simp add: generateAnalysis_def Let_def catch_handleApiError_def split: sum.splits)

text \<open>
  C5 (as amended).  In \<^verbatim>\<open>generateAnalysis\<close>, let the model answer with a text that, once the
  code fences are stripped and it is trimmed, is no refusal (it has 500 characters or more,
  or holds none of the refusal phrases).  If that text lacks a \<^verbatim>\<open>{\<close> or a \<^verbatim>\<open>}\<close>, the call
  fails with the \<^verbatim>\<open>Data Parsing Error\<close> descriptor.  If it holds both and the first
  \<^verbatim>\<open>{\<close> is not after the last \<^verbatim>\<open>}\<close>, then exactly the substring from the first
  \<^verbatim>\<open>{\<close> to the last \<^verbatim>\<open>}\<close>, both included, is handed to \<^verbatim>\<open>JSON.parse\<close>; the call returns
  the parsed value when the parse succeeds, and hands the \<^verbatim>\<open>SyntaxError\<close> to
  \<^verbatim>\<open>handleApiError\<close> when it fails, which titles it \<^verbatim>\<open>Data Parsing Error\<close> when the
  message of the \<^verbatim>\<open>SyntaxError\<close> holds no keyword of an earlier row of the table and no
  JSON error payload.
\<close>

theorem response_extraction:
  assumes "apiKey e \<noteq> []"
    and "result (retryOperation parse operation default_maxRetries default_initialDelay) =
         Inr response"
    and "\<not> is_refusal (clean (text_or response []))"
  shows "(let t = clean (text_or response []);
              payload = substring t (indexOf t CHR ''{'') (lastIndexOf t CHR ''}'' + 1);
              r = returned (generateAnalysis e parse operation params st)
          in (CHR ''{'' \<notin> set t \<or> CHR ''}'' \<notin> set t \<longrightarrow>
                r = Inl (parsing_error
                           ''Failed to parse analysis: Invalid JSON structure received.'')) \<and>
             (CHR ''{'' \<in> set t \<and> CHR ''}'' \<in> set t \<and>
              indexOf t CHR ''{'' \<le> lastIndexOf t CHR ''}'' \<longrightarrow>
                (\<exists>pre post. t = pre @ payload @ post \<and> CHR ''{'' \<notin> set pre \<and>
                   CHR ''}'' \<notin> set post \<and> hd payload = CHR ''{'' \<and> last payload = CHR ''}'') \<and>
                (\<forall>v. parse payload = Inr v \<longrightarrow> r = Inr v) \<and>
                (\<forall>m. parse payload = Inl m \<longrightarrow>
                   r = Inl (handleApiError parse (new_SyntaxError m)) \<and>
                   (\<not> list_ex (str_includes (toLowerCase m)) table_keywords \<and>
                    nested_error parse (Some m) = None \<longrightarrow>
                      r = Inl (parsing_error (if m \<noteq> [] then m else ''SyntaxError''))))))"
proof -
  let ?t = "clean (text_or response [])"
  let ?payload = "substring ?t (indexOf ?t CHR ''{'') (lastIndexOf ?t CHR ''}'' + 1)"
  let ?r = "returned (generateAnalysis e parse operation params st)"
  note r = generateAnalysis_extracts [OF assms, of params st]
  have missing: "?r = Inl (parsing_error
        ''Failed to parse analysis: Invalid JSON structure received.'')"
    if "CHR ''{'' \<notin> set ?t \<or> CHR ''}'' \<notin> set ?t"
    using that by (simp add: r parse_braces_missing missing_brace_normalized)
  have shape: "\<exists>pre post. ?t = pre @ ?payload @ post \<and> CHR ''{'' \<notin> set pre \<and>
        CHR ''}'' \<notin> set post \<and> hd ?payload = CHR ''{'' \<and> last ?payload = CHR ''}''"
    if "CHR ''{'' \<in> set ?t" "CHR ''}'' \<in> set ?t" "indexOf ?t CHR ''{'' \<le> lastIndexOf ?t CHR ''}''"
    using substring_braces [OF that] by metis
  have ok: "?r = Inr v"
    if "CHR ''{'' \<in> set ?t" "CHR ''}'' \<in> set ?t" "parse ?payload = Inr v" for v
    using that by (simp add: r parse_braces_present)
  have bad: "?r = Inl (handleApiError parse (new_SyntaxError m))"
    if "CHR ''{'' \<in> set ?t" "CHR ''}'' \<in> set ?t" "parse ?payload = Inl m" for m
    using that by (simp add: r parse_braces_present)
  show ?thesis
    unfolding Let_def
    using missing shape ok bad syntax_error_normalized
    by (intro conjI impI allI) (simp_all only:, blast+)
qed


lemma clean_fenced_json: "clean fenced_json = unfenced_json"
  by (simp add: clean_def fenced_json_def unfenced_json_def trim_def is_space_def)

lemma unfenced_no_refusal: "\<not> is_refusal unfenced_json"
  by (simp add: is_refusal_def refusalPatterns_def unfenced_json_def toLowerCase_def
      lower_char_def is_upper_def)

lemma unfenced_braces:
  "CHR ''{'' \<in> set unfenced_json" "CHR ''}'' \<in> set unfenced_json"
  "indexOf unfenced_json CHR ''{'' \<le> lastIndexOf unfenced_json CHR ''}''"
  by (simp_all add: unfenced_json_def indexOf_def lastIndexOf_def)

lemma unfenced_payload:
  \<open>substring unfenced_json (indexOf unfenced_json CHR ''{'')
     (lastIndexOf unfenced_json CHR ''}'' + 1) = ''{"a":1}''\<close>
  by (simp add: unfenced_json_def substring_def indexOf_def lastIndexOf_def)

text \<open>
  The answer \<^verbatim>\<open>Sure! ```json\<close>, newline, \<^verbatim>\<open>{"a":1}\<close>, newline, \<^verbatim>\<open>```\<close> is extracted to the
  object \<^verbatim>\<open>{a: 1}\<close>.
\<close>

theorem response_extraction_witness:
  "returned (generateAnalysis sample_env sample_parse (answers fenced_json) sample_params
     sample_state) = Inr (JObj [(''a'', JNum 1)])"
proof -
  have p: \<open>sample_parse ''{"a":1}'' = Inr (JObj [(''a'', JNum 1)])\<close>
    by (simp add: sample_parse_def)
  have k: "apiKey sample_env \<noteq> []"
    by (simp add: sample_env_def)
  show ?thesis
    using response_extraction [of sample_env sample_parse "answers fenced_json"
        "Some fenced_json" sample_params sample_state] p k
    by (simp add: answers_retry text_or_def clean_fenced_json unfenced_no_refusal
        unfenced_braces unfenced_payload Let_def)
qed

lemma clean_refusing_json: "clean refusing_json = refusing_json"
  by (simp add: clean_def refusing_json_def trim_def is_space_def)

lemma refusing_json_refusal: "is_refusal refusing_json"
  by (simp add: is_refusal_def refusalPatterns_def refusing_json_def toLowerCase_def
      lower_char_def is_upper_def)

lemma syntax_error_position_400:
  "handleApiError parse (new_SyntaxError ''Unexpected token } in JSON at position 400'') =
   invalid_request_400"
proof -
  have n: "nested_error parse
     (message (new_SyntaxError ''Unexpected token } in JSON at position 400'')) = None"
    by (simp add: nested_error_def new_SyntaxError_def)
  have p: "\<not> passes_through (new_SyntaxError ''Unexpected token } in JSON at position 400'')"
    by (simp add: passes_through_def new_SyntaxError_def)
  show ?thesis
    unfolding handleApiError_plain [OF n p]
    apply (simp add: new_SyntaxError_def message_or_empty_def js_or_def invalid_request_400_def)
    apply (simp add: classify_def toLowerCase_def lower_char_def is_upper_def)
    done
qed

text \<open>
  C5 as stated fails: not every text is parsed.  The answer
  \<^verbatim>\<open>{"note":"not a valid ticker"}\<close> is valid JSON, but it is short and holds a refusal
  phrase, so the call fails with \<^verbatim>\<open>Ticker Not Found\<close> and nothing is parsed.  And a parse
  failure is not always classified as a parse error: a \<^verbatim>\<open>SyntaxError\<close> with the message
  \<^verbatim>\<open>Unexpected token } in JSON at position 400\<close> meets the row of status 400 first and
  leaves as the non-retryable \<^verbatim>\<open>Invalid Request\<close>.
\<close>

theorem refusal_precedes_extraction:
  "sample_parse refusing_json = Inr (JObj [(''note'', JStr ''not a valid ticker'')]) \<and>
   returned (generateAnalysis sample_env sample_parse (answers refusing_json) sample_params
     sample_state) = Inl (ticker_not_found sample_params refusing_json) \<and>
   handleApiError sample_parse (new_SyntaxError ''Unexpected token } in JSON at position 400'') =
     invalid_request_400 \<and>
   title invalid_request_400 = Some (JStr ''Invalid Request'')"
proof -
  have a: "sample_parse refusing_json = Inr (JObj [(''note'', JStr ''not a valid ticker'')])"
    by (simp add: sample_parse_def refusing_json_def)
  have n: "nested_error sample_parse (message (ticker_not_found sample_params refusing_json)) = None"
    by (rule ticker_not_found_plain) (simp add: sample_params_def)
  have h: "handleApiError sample_parse (ticker_not_found sample_params refusing_json) =
           ticker_not_found sample_params refusing_json"
    by (simp add: handleApiError_def normalizer_unwrap_plain [OF n] passes_through_def)
       (simp add: ticker_not_found_def AnalysisError_def)
  have b: "returned (generateAnalysis sample_env sample_parse (answers refusing_json)
      sample_params sample_state) = Inl (ticker_not_found sample_params refusing_json)"
    by (simp add: generateAnalysis_def answers_retry text_or_def clean_refusing_json
        refusing_json_refusal catch_handleApiError_def Let_def h)
       (simp add: sample_env_def refusing_json_def)
  show ?thesis
    using a b syntax_error_position_400 [of sample_parse]
    by (simp add: invalid_request_400_def AnalysisError_def)
qed

section \<open>Reports that are never cached\<close>

lemma generateAnalysis_frame: "final (generateAnalysis e parse operation params st) = st"
  by (simp add: generateAnalysis_def Let_def)

lemma generateIPOReport_frame: "final (generateIPOReport e parse operation ipoName st) = st"
  by (simp add: generateIPOReport_def Let_def)

lemma generateAnalysis_stateless:
  "returned (generateAnalysis e parse operation params st) =
     returned (generateAnalysis e parse operation params st') \<and>
   model_calls (generateAnalysis e parse operation params st) =
     model_calls (generateAnalysis e parse operation params st')"
  by (simp add: generateAnalysis_def Let_def)

lemma generateIPOReport_stateless:
  "returned (generateIPOReport e parse operation ipoName st) =
     returned (generateIPOReport e parse operation ipoName st') \<and>
   model_calls (generateIPOReport e parse operation ipoName st) =
     model_calls (generateIPOReport e parse operation ipoName st')"
  by (simp add: generateIPOReport_def Let_def)

lemma generateAnalysis_invokes:
  "apiKey e \<noteq> [] \<Longrightarrow> 0 < model_calls (generateAnalysis e parse operation params st)"
  by (simp add: generateAnalysis_def Let_def retryOperation_invokes)

lemma generateIPOReport_invokes:
  "apiKey e \<noteq> [] \<Longrightarrow> 0 < model_calls (generateIPOReport e parse operation ipoName st)"
  by (simp add: generateIPOReport_def Let_def retryOperation_invokes)

text \<open>
  C8 (as amended).  Neither \<^verbatim>\<open>generateAnalysis\<close> nor \<^verbatim>\<open>generateIPOReport\<close> writes a cache:
  a call leaves \<^verbatim>\<open>marketCache\<close>, \<^verbatim>\<open>screenerCache\<close>, \<^verbatim>\<open>ipoListCache\<close>,
  \<^verbatim>\<open>lastScreenerQuery\<close> and the slots of \<^verbatim>\<open>localStorage\<close> as they were.  Neither reads
  one: what a call settles to and how often it invokes the model are the same in every
  module state.  And with the API key configured, every call invokes the model at least
  once, so also a second call with the same parameters.
\<close>

theorem uncached_reports:
  "final (generateAnalysis e parse operation params st) = st \<and>
   final (generateIPOReport e parse operation' ipoName st) = st \<and>
   returned (generateAnalysis e parse operation params st) =
     returned (generateAnalysis e parse operation params st') \<and>
   model_calls (generateAnalysis e parse operation params st) =
     model_calls (generateAnalysis e parse operation params st') \<and>
   returned (generateIPOReport e parse operation' ipoName st) =
     returned (generateIPOReport e parse operation' ipoName st') \<and>
   model_calls (generateIPOReport e parse operation' ipoName st) =
     model_calls (generateIPOReport e parse operation' ipoName st') \<and>
   (apiKey e \<noteq> [] \<longrightarrow>
      0 < model_calls (generateAnalysis e parse operation params st) \<and>
      0 < model_calls (generateIPOReport e parse operation' ipoName st))"
  using generateAnalysis_frame generateIPOReport_frame
    generateAnalysis_invokes [of e parse operation params st]
    generateIPOReport_invokes [of e parse operation' ipoName st]
    generateAnalysis_stateless [of e parse operation params st st']
    generateIPOReport_stateless [of e parse operation' ipoName st st']
  by simp

theorem uncached_reports_witness:
  "final (generateIPOReport sample_env sample_parse (answers fenced_json) ''Acme IPO''
     cached_state) = cached_state \<and>
   model_calls (generateIPOReport sample_env sample_parse (answers fenced_json) ''Acme IPO''
     cached_state) = 1 \<and>
   model_calls (generateIPOReport sample_env sample_parse (answers fenced_json) ''Acme IPO''
     (final (generateIPOReport sample_env sample_parse (answers fenced_json) ''Acme IPO''
        cached_state))) = 1"
proof -
  have k: "apiKey sample_env \<noteq> []"
    by (simp add: sample_env_def)
  have c: "model_calls (generateIPOReport sample_env sample_parse (answers fenced_json)
      ''Acme IPO'' st) = 1" for st
    using k by (simp add: generateIPOReport_def Let_def answers_retry)
  show ?thesis
    using uncached_reports [of sample_env sample_parse "answers fenced_json" sample_params
        cached_state "answers fenced_json" "''Acme IPO''" cached_state] c
    by simp
qed

text \<open>
  C8 as stated fails without an API key: the call throws \<^verbatim>\<open>Missing API Key\<close> on its first
  line and the model is not invoked.
\<close>

theorem no_model_call_without_key:
  "model_calls (generateIPOReport no_key_env sample_parse (answers fenced_json) ''Acme IPO''
     cached_state) = 0 \<and>
   returned (generateIPOReport no_key_env sample_parse (answers fenced_json) ''Acme IPO''
     cached_state) = Inl missing_api_key \<and>
   model_calls (generateAnalysis no_key_env sample_parse (answers fenced_json) sample_params
     cached_state) = 0"
  by (simp add: generateIPOReport_def generateAnalysis_def no_key_env_def)

section \<open>Cached reports\<close>

lemma getMarketOverview_hit:
  assumes "apiKey e \<noteq> []" and "\<not> forceRefresh" and "marketCache st = Some c"
    and "now - timestamp c < MARKET_CACHE_TTL"
  shows "getMarketOverview e parse operation forceRefresh now stored_at saved_at st =
         \<lparr>returned = Inr (data c), model_calls = 0, final = st\<rparr>"
  using assms by (simp add: getMarketOverview_def is_fresh_def)

lemma getMarketOverview_miss:
  assumes "apiKey e \<noteq> []"
    and "forceRefresh \<or> (case marketCache st of None \<Rightarrow> True
                           | Some c \<Rightarrow> MARKET_CACHE_TTL \<le> now - timestamp c)"
  shows "0 < model_calls (getMarketOverview e parse operation forceRefresh now stored_at saved_at st) \<and>
         returned (getMarketOverview e parse operation forceRefresh now stored_at saved_at st) =
           returned (getMarketOverview e parse operation forceRefresh now stored_at saved_at
                      (st\<lparr>marketCache := None\<rparr>)) \<and>
         (\<forall>v. returned (getMarketOverview e parse operation forceRefresh now stored_at saved_at st)
                = Inr v \<longrightarrow>
              marketCache (final (getMarketOverview e parse operation forceRefresh now stored_at
                                    saved_at st)) = Some \<lparr>data = v, timestamp = stored_at\<rparr>)"
proof -
  have f: "\<not> is_fresh forceRefresh (marketCache st) now MARKET_CACHE_TTL"
    using assms(2) by (auto simp: is_fresh_def split: option.splits)
  have g: "\<not> is_fresh forceRefresh None now MARKET_CACHE_TTL"
    by (simp add: is_fresh_def)
  show ?thesis
    using assms(1) f g
    by (auto simp: getMarketOverview_def Let_def retryOperation_invokes saveCache_def
        split: sum.splits)
qed

lemma fetchIPOList_hit:
  assumes "apiKey e \<noteq> []" and "\<not> forceRefresh" and "ipoListCache st = Some c"
    and "now - timestamp c < IPO_CACHE_TTL"
  shows "fetchIPOList e parse operation forceRefresh now stored_at saved_at st =
         \<lparr>returned = Inr (data c), model_calls = 0, final = st\<rparr>"
  using assms by (simp add: fetchIPOList_def is_fresh_def)

lemma fetchIPOList_miss:
  assumes "apiKey e \<noteq> []"
    and "forceRefresh \<or> (case ipoListCache st of None \<Rightarrow> True
                           | Some c \<Rightarrow> IPO_CACHE_TTL \<le> now - timestamp c)"
  shows "0 < model_calls (fetchIPOList e parse operation forceRefresh now stored_at saved_at st) \<and>
         returned (fetchIPOList e parse operation forceRefresh now stored_at saved_at st) =
           returned (fetchIPOList e parse operation forceRefresh now stored_at saved_at
                      (st\<lparr>ipoListCache := None\<rparr>)) \<and>
         (\<forall>v. returned (fetchIPOList e parse operation forceRefresh now stored_at saved_at st)
                = Inr v \<longrightarrow>
              ipoListCache (final (fetchIPOList e parse operation forceRefresh now stored_at
                                    saved_at st)) = Some \<lparr>data = v, timestamp = stored_at\<rparr>)"
proof -
  have f: "\<not> is_fresh forceRefresh (ipoListCache st) now IPO_CACHE_TTL"
    using assms(2) by (auto simp: is_fresh_def split: option.splits)
  have g: "\<not> is_fresh forceRefresh None now IPO_CACHE_TTL"
    by (simp add: is_fresh_def)
  show ?thesis
    using assms(1) f g
    by (auto simp: fetchIPOList_def Let_def retryOperation_invokes saveCache_def
        split: sum.splits)
qed

lemma screenStocks_hit:
  assumes "apiKey e \<noteq> []" and "\<not> forceRefresh" and "screenerCache st (getCacheKey query) = Some c"
    and "now - timestamp c < SCREENER_CACHE_TTL"
  shows "screenStocks e parse operation query forceRefresh now stored_at st =
         \<lparr>returned = Inr (data c), model_calls = 0,
          final = st\<lparr>lastScreenerQuery := Some query\<rparr>\<rparr>"
  using assms by (simp add: screenStocks_def is_fresh_def Let_def)

lemma screenStocks_miss:
  assumes "apiKey e \<noteq> []"
    and "forceRefresh \<or> (case screenerCache st (getCacheKey query) of None \<Rightarrow> True
                           | Some c \<Rightarrow> SCREENER_CACHE_TTL \<le> now - timestamp c)"
  shows "0 < model_calls (screenStocks e parse operation query forceRefresh now stored_at st) \<and>
         returned (screenStocks e parse operation query forceRefresh now stored_at st) =
           returned (screenStocks e parse operation query forceRefresh now stored_at
                      (st\<lparr>screenerCache := (screenerCache st)(getCacheKey query := None)\<rparr>)) \<and>
         (\<forall>v. returned (screenStocks e parse operation query forceRefresh now stored_at st)
                = Inr v \<longrightarrow>
              screenerCache (final (screenStocks e parse operation query forceRefresh now
                                      stored_at st)) (getCacheKey query) =
                Some \<lparr>data = v, timestamp = stored_at\<rparr>)"
proof -
  have f: "\<not> is_fresh forceRefresh (screenerCache st (getCacheKey query)) now SCREENER_CACHE_TTL"
    using assms(2) by (auto simp: is_fresh_def split: option.splits)
  have g: "\<not> is_fresh forceRefresh None now SCREENER_CACHE_TTL"
    by (simp add: is_fresh_def)
  show ?thesis
    using assms(1) f g
    by (auto simp: screenStocks_def Let_def retryOperation_invokes split: sum.splits)
qed

text \<open>
  C7 (as amended).  With the API key configured, for the market overview, the screener (per
  normalized query) and the IPO list: a call that is not forced, made while the age of the
  stored entry is below the TTL of its kind (5, 15 and 60 minutes), returns the payload of
  that entry and does not invoke the model.  A call that is forced, or finds no entry, or
  finds one whose age has reached the TTL, invokes the model, settles to what it would settle
  to with the entry absent, and on success stores the payload it returns, with the time of
  storing; so the entry a later call serves is the one stored last.
\<close>

theorem cache_ttl:
  assumes "apiKey e \<noteq> []"
  shows
   "(\<not> forceRefresh \<and> marketCache st = Some cm \<and> now - timestamp cm < MARKET_CACHE_TTL \<longrightarrow>
       getMarketOverview e parse operation forceRefresh now stored_at saved_at st =
         \<lparr>returned = Inr (data cm), model_calls = 0, final = st\<rparr>) \<and>
    (forceRefresh \<or> (case marketCache st of None \<Rightarrow> True
                      | Some c \<Rightarrow> MARKET_CACHE_TTL \<le> now - timestamp c) \<longrightarrow>
       0 < model_calls (getMarketOverview e parse operation forceRefresh now stored_at saved_at st) \<and>
       returned (getMarketOverview e parse operation forceRefresh now stored_at saved_at st) =
         returned (getMarketOverview e parse operation forceRefresh now stored_at saved_at
                    (st\<lparr>marketCache := None\<rparr>)) \<and>
       (\<forall>v. returned (getMarketOverview e parse operation forceRefresh now stored_at saved_at st)
              = Inr v \<longrightarrow>
            marketCache (final (getMarketOverview e parse operation forceRefresh now stored_at
                                  saved_at st)) = Some \<lparr>data = v, timestamp = stored_at\<rparr>)) \<and>
    (\<not> forceRefresh \<and> screenerCache st (getCacheKey query) = Some cs \<and>
     now - timestamp cs < SCREENER_CACHE_TTL \<longrightarrow>
       screenStocks e parse operation query forceRefresh now stored_at st =
         \<lparr>returned = Inr (data cs), model_calls = 0,
          final = st\<lparr>lastScreenerQuery := Some query\<rparr>\<rparr>) \<and>
    (forceRefresh \<or> (case screenerCache st (getCacheKey query) of None \<Rightarrow> True
                      | Some c \<Rightarrow> SCREENER_CACHE_TTL \<le> now - timestamp c) \<longrightarrow>
       0 < model_calls (screenStocks e parse operation query forceRefresh now stored_at st) \<and>
       returned (screenStocks e parse operation query forceRefresh now stored_at st) =
         returned (screenStocks e parse operation query forceRefresh now stored_at
                    (st\<lparr>screenerCache := (screenerCache st)(getCacheKey query := None)\<rparr>)) \<and>
       (\<forall>v. returned (screenStocks e parse operation query forceRefresh now stored_at st)
              = Inr v \<longrightarrow>
            screenerCache (final (screenStocks e parse operation query forceRefresh now
                                    stored_at st)) (getCacheKey query) =
              Some \<lparr>data = v, timestamp = stored_at\<rparr>)) \<and>
    (\<not> forceRefresh \<and> ipoListCache st = Some ci \<and> now - timestamp ci < IPO_CACHE_TTL \<longrightarrow>
       fetchIPOList e parse operation forceRefresh now stored_at saved_at st =
         \<lparr>returned = Inr (data ci), model_calls = 0, final = st\<rparr>) \<and>
    (forceRefresh \<or> (case ipoListCache st of None \<Rightarrow> True
                      | Some c \<Rightarrow> IPO_CACHE_TTL \<le> now - timestamp c) \<longrightarrow>
       0 < model_calls (fetchIPOList e parse operation forceRefresh now stored_at saved_at st) \<and>
       returned (fetchIPOList e parse operation forceRefresh now stored_at saved_at st) =
         returned (fetchIPOList e parse operation forceRefresh now stored_at saved_at
                    (st\<lparr>ipoListCache := None\<rparr>)) \<and>
       (\<forall>v. returned (fetchIPOList e parse operation forceRefresh now stored_at saved_at st)
              = Inr v \<longrightarrow>
            ipoListCache (final (fetchIPOList e parse operation forceRefresh now stored_at
                                  saved_at st)) = Some \<lparr>data = v, timestamp = stored_at\<rparr>)) \<and>
    MARKET_CACHE_TTL = 300000 \<and> SCREENER_CACHE_TTL = 900000 \<and> IPO_CACHE_TTL = 3600000"
proof -
  have h1: "\<not> forceRefresh \<and> marketCache st = Some cm \<and> now - timestamp cm < MARKET_CACHE_TTL \<longrightarrow>
       getMarketOverview e parse operation forceRefresh now stored_at saved_at st =
         \<lparr>returned = Inr (data cm), model_calls = 0, final = st\<rparr>"
    by (intro impI, elim conjE, rule getMarketOverview_hit [OF assms]; assumption)
  have m1: "forceRefresh \<or> (case marketCache st of None \<Rightarrow> True
                      | Some c \<Rightarrow> MARKET_CACHE_TTL \<le> now - timestamp c) \<longrightarrow>
       0 < model_calls (getMarketOverview e parse operation forceRefresh now stored_at saved_at st) \<and>
       returned (getMarketOverview e parse operation forceRefresh now stored_at saved_at st) =
         returned (getMarketOverview e parse operation forceRefresh now stored_at saved_at
                    (st\<lparr>marketCache := None\<rparr>)) \<and>
       (\<forall>v. returned (getMarketOverview e parse operation forceRefresh now stored_at saved_at st)
              = Inr v \<longrightarrow>
            marketCache (final (getMarketOverview e parse operation forceRefresh now stored_at
                                  saved_at st)) = Some \<lparr>data = v, timestamp = stored_at\<rparr>)"
    by (intro impI, rule getMarketOverview_miss [OF assms], assumption)
  have h2: "\<not> forceRefresh \<and> screenerCache st (getCacheKey query) = Some cs \<and>
     now - timestamp cs < SCREENER_CACHE_TTL \<longrightarrow>
       screenStocks e parse operation query forceRefresh now stored_at st =
         \<lparr>returned = Inr (data cs), model_calls = 0,
          final = st\<lparr>lastScreenerQuery := Some query\<rparr>\<rparr>"
    by (intro impI, elim conjE, rule screenStocks_hit [OF assms]; assumption)
  have m2: "forceRefresh \<or> (case screenerCache st (getCacheKey query) of None \<Rightarrow> True
                      | Some c \<Rightarrow> SCREENER_CACHE_TTL \<le> now - timestamp c) \<longrightarrow>
       0 < model_calls (screenStocks e parse operation query forceRefresh now stored_at st) \<and>
       returned (screenStocks e parse operation query forceRefresh now stored_at st) =
         returned (screenStocks e parse operation query forceRefresh now stored_at
                    (st\<lparr>screenerCache := (screenerCache st)(getCacheKey query := None)\<rparr>)) \<and>
       (\<forall>v. returned (screenStocks e parse operation query forceRefresh now stored_at st)
              = Inr v \<longrightarrow>
            screenerCache (final (screenStocks e parse operation query forceRefresh now
                                    stored_at st)) (getCacheKey query) =
              Some \<lparr>data = v, timestamp = stored_at\<rparr>)"
    by (intro impI, rule screenStocks_miss [OF assms], assumption)
  have h3: "\<not> forceRefresh \<and> ipoListCache st = Some ci \<and> now - timestamp ci < IPO_CACHE_TTL \<longrightarrow>
       fetchIPOList e parse operation forceRefresh now stored_at saved_at st =
         \<lparr>returned = Inr (data ci), model_calls = 0, final = st\<rparr>"
    by (intro impI, elim conjE, rule fetchIPOList_hit [OF assms]; assumption)
  have m3: "forceRefresh \<or> (case ipoListCache st of None \<Rightarrow> True
                      | Some c \<Rightarrow> IPO_CACHE_TTL \<le> now - timestamp c) \<longrightarrow>
       0 < model_calls (fetchIPOList e parse operation forceRefresh now stored_at saved_at st) \<and>
       returned (fetchIPOList e parse operation forceRefresh now stored_at saved_at st) =
         returned (fetchIPOList e parse operation forceRefresh now stored_at saved_at
                    (st\<lparr>ipoListCache := None\<rparr>)) \<and>
       (\<forall>v. returned (fetchIPOList e parse operation forceRefresh now stored_at saved_at st)
              = Inr v \<longrightarrow>
            ipoListCache (final (fetchIPOList e parse operation forceRefresh now stored_at
                                  saved_at st)) = Some \<lparr>data = v, timestamp = stored_at\<rparr>)"
    by (intro impI, rule fetchIPOList_miss [OF assms], assumption)
  have t: "MARKET_CACHE_TTL = 300000" "SCREENER_CACHE_TTL = 900000" "IPO_CACHE_TTL = 3600000"
    by (simp_all add: MARKET_CACHE_TTL_def SCREENER_CACHE_TTL_def IPO_CACHE_TTL_def)
  show ?thesis
    by (intro conjI h1 m1 h2 m2 h3 m3 t)
qed

theorem cache_ttl_witness:
  "getMarketOverview sample_env sample_parse (answers fenced_json) False 2000 2001 2002
     cached_state =
     \<lparr>returned = Inr (Some (JObj [(''market_sentiment'', JStr ''Bullish'')])), model_calls = 0,
      final = cached_state\<rparr> \<and>
   0 < model_calls (getMarketOverview sample_env sample_parse (answers fenced_json) True 2000 2001
         2002 cached_state) \<and>
   screenStocks sample_env sample_parse (answers fenced_json) '' aapl '' False 2000 2001
     cached_state =
     \<lparr>returned = Inr (Some (JArr [])), model_calls = 0,
      final = cached_state\<lparr>lastScreenerQuery := Some '' aapl ''\<rparr>\<rparr>"
proof -
  have k: "apiKey sample_env \<noteq> []"
    by (simp add: sample_env_def)
  have key: "getCacheKey '' aapl '' = ''aapl''"
    by (simp add: getCacheKey_def toLowerCase_def trim_def is_space_def lower_char_def
        is_upper_def)
  have m: "marketCache cached_state =
           Some \<lparr>data = Some (JObj [(''market_sentiment'', JStr ''Bullish'')]), timestamp = 1000\<rparr>"
    by (simp add: cached_state_def)
  have s: "screenerCache cached_state ''aapl'' = Some \<lparr>data = Some (JArr []), timestamp = 1000\<rparr>"
    by (simp add: cached_state_def)
  note hit = cache_ttl [OF k, of False cached_state
      "\<lparr>data = Some (JObj [(''market_sentiment'', JStr ''Bullish'')]), timestamp = 1000\<rparr>"
      2000 sample_parse "answers fenced_json" 2001 2002 "'' aapl ''"
      "\<lparr>data = Some (JArr []), timestamp = 1000\<rparr>"]
  note forced = cache_ttl [OF k, of True cached_state _ 2000 sample_parse "answers fenced_json"
      2001 2002]
  have a: "getMarketOverview sample_env sample_parse (answers fenced_json) False 2000 2001 2002
     cached_state =
     \<lparr>returned = Inr (Some (JObj [(''market_sentiment'', JStr ''Bullish'')])), model_calls = 0,
      final = cached_state\<rparr>"
    using hit [THEN conjunct1] m by (simp add: MARKET_CACHE_TTL_def)
  have b: "0 < model_calls (getMarketOverview sample_env sample_parse (answers fenced_json) True
         2000 2001 2002 cached_state)"
    using forced [THEN conjunct2, THEN conjunct1] by simp
  have c: "screenStocks sample_env sample_parse (answers fenced_json) '' aapl '' False 2000 2001
     cached_state =
     \<lparr>returned = Inr (Some (JArr [])), model_calls = 0,
      final = cached_state\<lparr>lastScreenerQuery := Some '' aapl ''\<rparr>\<rparr>"
    using hit [THEN conjunct2, THEN conjunct2, THEN conjunct1] s
    by (simp add: key SCREENER_CACHE_TTL_def)
  show ?thesis
    using a b c by (intro conjI)
qed

text \<open>
  C7 as stated fails without an API key: the call throws \<^verbatim>\<open>Missing API Key\<close> before it
  looks at the cache, so a fresh entry is not returned, and a forced call fetches nothing.
\<close>

theorem cache_needs_api_key:
  "marketCache cached_state =
     Some \<lparr>data = Some (JObj [(''market_sentiment'', JStr ''Bullish'')]), timestamp = 1000\<rparr> \<and>
   2000 - 1000 < MARKET_CACHE_TTL \<and>
   getMarketOverview no_key_env sample_parse (answers fenced_json) False 2000 2001 2002
     cached_state =
     \<lparr>returned = Inl missing_api_key, model_calls = 0, final = cached_state\<rparr> \<and>
   model_calls (getMarketOverview no_key_env sample_parse (answers fenced_json) True 2000 2001
     2002 cached_state) = 0"
  by (simp add: getMarketOverview_def no_key_env_def cached_state_def MARKET_CACHE_TTL_def)

section \<open>The last screener query\<close>

lemma screenStocks_failure:
  "returned (screenStocks e parse operation query forceRefresh now stored_at st) = Inl x \<Longrightarrow>
   final (screenStocks e parse operation query forceRefresh now stored_at st) = st"
  by (auto simp: screenStocks_def Let_def split: if_splits sum.splits)

lemma screenStocks_success:
  "returned (screenStocks e parse operation query forceRefresh now stored_at st) = Inr v \<Longrightarrow>
   lastScreenerQuery (final (screenStocks e parse operation query forceRefresh now stored_at st))
     = Some query \<and>
   (\<exists>c. screenerCache (final (screenStocks e parse operation query forceRefresh now stored_at st))
          (getCacheKey query) = Some c \<and> data c = v)"
  by (auto simp: screenStocks_def Let_def is_fresh_def split: if_splits sum.splits option.splits)

lemma screenStocks_keeps_entries:
  "screenerCache st k \<noteq> None \<Longrightarrow>
   screenerCache (final (screenStocks e parse operation query forceRefresh now stored_at st)) k
     \<noteq> None"
  by (auto simp: screenStocks_def Let_def split: if_splits sum.splits)

lemma getScreenerState_after_success:
  assumes "returned (screenStocks e parse operation query forceRefresh now stored_at st) = Inr v"
  shows "getScreenerState (final (screenStocks e parse operation query forceRefresh now stored_at
           st)) = (if query = [] then None else Some (query, v))"
  using screenStocks_success [OF assms] by (auto simp: getScreenerState_def)

lemma other_calls_keep_screener:
  "lastScreenerQuery (final (generateAnalysis e parse operation params st)) = lastScreenerQuery st"
  "screenerCache (final (generateAnalysis e parse operation params st)) = screenerCache st"
  "lastScreenerQuery (final (getMarketOverview e parse operation forceRefresh now stored_at
     saved_at st)) = lastScreenerQuery st"
  "screenerCache (final (getMarketOverview e parse operation forceRefresh now stored_at
     saved_at st)) = screenerCache st"
  "lastScreenerQuery (final (fetchIPOList e parse operation forceRefresh now stored_at
     saved_at st)) = lastScreenerQuery st"
  "screenerCache (final (fetchIPOList e parse operation forceRefresh now stored_at
     saved_at st)) = screenerCache st"
  "lastScreenerQuery (final (generateIPOReport e parse operation ipoName st)) =
     lastScreenerQuery st"
  "screenerCache (final (generateIPOReport e parse operation ipoName st)) = screenerCache st"
  "lastScreenerQuery (final (generateChatResponseLite e parse operation msg context st)) =
     lastScreenerQuery st"
  "screenerCache (final (generateChatResponseLite e parse operation msg context st)) =
     screenerCache st"
  "lastScreenerQuery (final (generateChatResponseDetailed e parse operation msg context st)) =
     lastScreenerQuery st"
  "screenerCache (final (generateChatResponseDetailed e parse operation msg context st)) =
     screenerCache st"
  by (auto simp: generateAnalysis_def getMarketOverview_def fetchIPOList_def
      generateIPOReport_def generateChatResponseLite_def generateChatResponseDetailed_def
      Let_def saveCache_def split: if_splits sum.splits)

lemma getScreenerState_cong:
  "lastScreenerQuery st' = lastScreenerQuery st \<Longrightarrow> screenerCache st' = screenerCache st \<Longrightarrow>
   getScreenerState st' = getScreenerState st"
  by (simp add: getScreenerState_def cong: option.case_cong if_cong)

lemma screener_invariant_cong:
  "lastScreenerQuery st' = lastScreenerQuery st \<Longrightarrow> screenerCache st' = screenerCache st \<Longrightarrow>
   screener_invariant st' = screener_invariant st"
  by (simp add: screener_invariant_def cong: option.case_cong)

lemma screenStocks_invariant:
  assumes "screener_invariant st"
  shows "screener_invariant
           (final (screenStocks e parse operation query forceRefresh now stored_at st))"
proof (cases "returned (screenStocks e parse operation query forceRefresh now stored_at st)")
  case (Inl x)
  then show ?thesis using assms by (simp add: screenStocks_failure)
next
  case (Inr v)
  then show ?thesis
    using screenStocks_success [OF Inr] by (auto simp: screener_invariant_def)
qed

lemma reachable_invariant: "reachable e st \<Longrightarrow> screener_invariant st"
proof (induction rule: reachable.induct)
  case (loaded slots)
  then show ?case by (simp add: screener_invariant_def initial_state_def)
next
  case (screen st parse operation query forceRefresh now stored_at)
  then show ?case by (simp add: screenStocks_invariant)
qed (simp_all add: screener_invariant_cong [OF other_calls_keep_screener(1,2)]
      screener_invariant_cong [OF other_calls_keep_screener(3,4)]
      screener_invariant_cong [OF other_calls_keep_screener(5,6)]
      screener_invariant_cong [OF other_calls_keep_screener(7,8)]
      screener_invariant_cong [OF other_calls_keep_screener(9,10)]
      screener_invariant_cong [OF other_calls_keep_screener(11,12)])

lemma getScreenerState_invariant:
  assumes "screener_invariant st"
  shows "(case lastScreenerQuery st of
            None \<Rightarrow> getScreenerState st = None
          | Some q \<Rightarrow>
              (\<exists>c. screenerCache st (getCacheKey q) = Some c \<and>
                   getScreenerState st = (if q = [] then None else Some (q, data c))))"
  using assms by (auto simp: screener_invariant_def getScreenerState_def split: option.splits)

text \<open>
  C10 (as amended).  \<^verbatim>\<open>getScreenerState\<close> returns \<^verbatim>\<open>null\<close> when the module is loaded, and
  a call of \<^verbatim>\<open>screenStocks\<close> that fails, like a call of any other exported function, does
  not change what it returns.  A call of \<^verbatim>\<open>screenStocks\<close> that succeeds, by a fresh fetch
  or from the cache, leaves \<^verbatim>\<open>lastScreenerQuery\<close> at its query as typed and an entry with
  the returned data under the normalized query; entries are never deleted.  So in every
  reachable state with a last query, \<^verbatim>\<open>screenerCache\<close> holds an entry under its normalized
  form, and \<^verbatim>\<open>getScreenerState\<close> returns the query as typed with the data of that entry
  when the query is not the empty string, and \<^verbatim>\<open>null\<close> when it is the empty string.
\<close>

theorem screener_state:
  "getScreenerState (initial_state e slots) = None \<and>
   (returned (screenStocks e parse operation query forceRefresh now stored_at st) = Inl x \<longrightarrow>
      getScreenerState (final (screenStocks e parse operation query forceRefresh now stored_at st))
        = getScreenerState st) \<and>
   getScreenerState (final (generateAnalysis e parse operation params st)) = getScreenerState st \<and>
   getScreenerState (final (getMarketOverview e parse operation forceRefresh now stored_at
     saved_at st)) = getScreenerState st \<and>
   getScreenerState (final (fetchIPOList e parse operation forceRefresh now stored_at
     saved_at st)) = getScreenerState st \<and>
   getScreenerState (final (generateIPOReport e parse operation ipoName st)) =
     getScreenerState st \<and>
   getScreenerState (final (generateChatResponseLite e parse operation msg context st)) =
     getScreenerState st \<and>
   getScreenerState (final (generateChatResponseDetailed e parse operation msg context st)) =
     getScreenerState st \<and>
   (returned (screenStocks e parse operation query forceRefresh now stored_at st) = Inr v \<longrightarrow>
      lastScreenerQuery (final (screenStocks e parse operation query forceRefresh now stored_at
        st)) = Some query \<and>
      (\<exists>c. screenerCache (final (screenStocks e parse operation query forceRefresh now stored_at
               st)) (getCacheKey query) = Some c \<and> data c = v) \<and>
      getScreenerState (final (screenStocks e parse operation query forceRefresh now stored_at
        st)) = (if query = [] then None else Some (query, v))) \<and>
   (screenerCache st k \<noteq> None \<longrightarrow>
      screenerCache (final (screenStocks e parse operation query forceRefresh now stored_at st)) k
        \<noteq> None) \<and>
   (reachable e st \<longrightarrow>
      (case lastScreenerQuery st of
         None \<Rightarrow> getScreenerState st = None
       | Some q \<Rightarrow>
           (\<exists>c. screenerCache st (getCacheKey q) = Some c \<and>
                getScreenerState st = (if q = [] then None else Some (q, data c)))))"
proof -
  have a: "getScreenerState (initial_state e slots) = None"
    by (simp add: getScreenerState_def initial_state_def)
  have b: "returned (screenStocks e parse operation query forceRefresh now stored_at st) = Inl x \<longrightarrow>
      getScreenerState (final (screenStocks e parse operation query forceRefresh now stored_at st))
        = getScreenerState st"
    by (simp add: screenStocks_failure)
  have c: "returned (screenStocks e parse operation query forceRefresh now stored_at st) = Inr v \<longrightarrow>
      lastScreenerQuery (final (screenStocks e parse operation query forceRefresh now stored_at
        st)) = Some query \<and>
      (\<exists>c. screenerCache (final (screenStocks e parse operation query forceRefresh now stored_at
               st)) (getCacheKey query) = Some c \<and> data c = v) \<and>
      getScreenerState (final (screenStocks e parse operation query forceRefresh now stored_at
        st)) = (if query = [] then None else Some (query, v))"
    using screenStocks_success getScreenerState_after_success by blast
  have d: "screenerCache st k \<noteq> None \<longrightarrow>
      screenerCache (final (screenStocks e parse operation query forceRefresh now stored_at st)) k
        \<noteq> None"
    using screenStocks_keeps_entries by blast
  have i: "reachable e st \<longrightarrow>
      (case lastScreenerQuery st of
         None \<Rightarrow> getScreenerState st = None
       | Some q \<Rightarrow>
           (\<exists>c. screenerCache st (getCacheKey q) = Some c \<and>
                getScreenerState st = (if q = [] then None else Some (q, data c))))"
    using reachable_invariant getScreenerState_invariant by blast
  show ?thesis
    by (intro conjI a b c d i
        getScreenerState_cong [OF other_calls_keep_screener(1,2)]
        getScreenerState_cong [OF other_calls_keep_screener(3,4)]
        getScreenerState_cong [OF other_calls_keep_screener(5,6)]
        getScreenerState_cong [OF other_calls_keep_screener(7,8)]
        getScreenerState_cong [OF other_calls_keep_screener(9,10)]
        getScreenerState_cong [OF other_calls_keep_screener(11,12)])
qed

lemma clean_screener_json: "clean screener_json = screener_json"
  by (simp add: clean_def screener_json_def trim_def is_space_def)

lemma parse_screener_json:
  "parse_braces sample_parse screener_json failure = Inr (JObj [(''matches'', JArr [])])"
  by (simp add: parse_braces_def screener_json_def indexOf_def lastIndexOf_def substring_def
      sample_parse_def Let_def)

lemma screenStocks_fetch_sample:
  assumes "screenerCache st (getCacheKey query) = None"
  shows "screenStocks sample_env sample_parse (answers screener_json) query False now stored_at st =
     \<lparr>returned = Inr (Some (JArr [])), model_calls = 1,
      final = st\<lparr>screenerCache := (screenerCache st)(getCacheKey query \<mapsto>
                                      \<lparr>data = Some (JArr []), timestamp = stored_at\<rparr>),
                 lastScreenerQuery := Some query\<rparr>\<rparr>"
proof -
  have k: "apiKey sample_env \<noteq> []"
    by (simp add: sample_env_def)
  have t: "text_or (Some screener_json) [] = screener_json"
    by (simp add: text_or_def)
  show ?thesis
    using k assms
    by (simp add: screenStocks_def Let_def is_fresh_def answers_retry t clean_screener_json
        parse_screener_json read_list_def)
qed

lemma key_aapl: "getCacheKey ''AAPL'' = ''aapl''"
  by (simp add: getCacheKey_def toLowerCase_def trim_def is_space_def lower_char_def
      is_upper_def)

lemma key_empty: "getCacheKey [] = []"
  by (simp add: getCacheKey_def toLowerCase_def trim_def)

lemma first_search:
  "screenStocks sample_env sample_parse (answers screener_json) ''AAPL'' False 0 1 sample_state =
     \<lparr>returned = Inr (Some (JArr [])), model_calls = 1,
      final = sample_state\<lparr>screenerCache := (screenerCache sample_state)(''aapl'' \<mapsto>
                                      \<lparr>data = Some (JArr []), timestamp = 1\<rparr>),
                 lastScreenerQuery := Some ''AAPL''\<rparr>\<rparr>"
  using screenStocks_fetch_sample [of sample_state "''AAPL''" 0 1]
  by (simp add: key_aapl sample_state_def initial_state_def)

lemma second_search:
  "returned (screenStocks sample_env sample_parse (answers screener_json) [] False 2 3 after_aapl)
     = Inr (Some (JArr []))"
proof -
  have "screenerCache after_aapl (getCacheKey []) = None"
    by (simp add: after_aapl_def first_search key_empty)
       (simp add: sample_state_def initial_state_def)
  then show ?thesis
    using screenStocks_fetch_sample [of after_aapl "[]" 2 3] by simp
qed

theorem screener_state_witness:
  "returned (screenStocks sample_env sample_parse (answers screener_json) ''AAPL'' False 0 1
     sample_state) = Inr (Some (JArr [])) \<and>
   getScreenerState after_aapl = Some (''AAPL'', Some (JArr []))"
  using screener_state [of sample_env _ sample_parse "answers screener_json" "''AAPL''" False 0 1
      sample_state _ _ _ _ _ _ "Some (JArr [])"] first_search
  by (simp add: after_aapl_def)

text \<open>
  C10 as stated fails for the empty query: \<^verbatim>\<open>if (lastScreenerQuery)\<close> takes the empty
  string for no query.  After a successful search for \<^verbatim>\<open>AAPL\<close>, \<^verbatim>\<open>getScreenerState\<close>
  returns that query with its data; after a successful search for the empty string it
  returns \<^verbatim>\<open>null\<close> again.
\<close>

theorem empty_query_returns_null:
  "returned (screenStocks sample_env sample_parse (answers screener_json) ''AAPL'' False 0 1
     sample_state) = Inr (Some (JArr [])) \<and>
   getScreenerState after_aapl = Some (''AAPL'', Some (JArr [])) \<and>
   returned (screenStocks sample_env sample_parse (answers screener_json) [] False 2 3 after_aapl)
     = Inr (Some (JArr [])) \<and>
   lastScreenerQuery after_empty_query = Some [] \<and>
   getScreenerState after_empty_query = None"
proof -
  have a: "getScreenerState after_aapl = Some (''AAPL'', Some (JArr []))"
    using getScreenerState_after_success [of sample_env sample_parse "answers screener_json"
        "''AAPL''" False 0 1 sample_state "Some (JArr [])"] first_search
    by (simp add: after_aapl_def)
  have b: "lastScreenerQuery after_empty_query = Some []"
    using screenStocks_success [OF second_search] by (simp add: after_empty_query_def)
  have c: "getScreenerState after_empty_query = None"
    using getScreenerState_after_success [OF second_search] by (simp add: after_empty_query_def)
  show ?thesis
    using a b c second_search first_search by simp
qed

end
